theory Spec2Isabelle
  imports Complex_Main
begin

section \<open>Conventions of the embedding\<close>

text \<open>
  The docking core computes with C++ \<^verbatim>\<open>float\<close> and \<^verbatim>\<open>double\<close>. They are embedded as
  \<^typ>\<open>real\<close>: rounding, infinities and NaN are not modelled, so every statement below is
  about the arithmetic the source writes down, read over the reals. \<^verbatim>\<open>size_t\<close> values are
  \<^typ>\<open>nat\<close> (no claim depends on a 64-bit wrap-around).

  Several headers of the repository are not part of the sources at hand (the atom and
  AutoDock type tables, the vector and quaternion classes, the triangular matrix index
  helpers, the ligand evaluator, \<^verbatim>\<open>distance_sqr\<close>). What the embedded functions need from
  them is taken as a parameter, collected in a record that is passed to the function.
\<close>

type_synonym vec3 = "real \<times> real \<times> real"

section \<open>Results and the result container\<close>

text \<open>
  \<^verbatim>\<open>class result\<close>: the fields \<^verbatim>\<open>e\<close>, \<^verbatim>\<open>f\<close>, \<^verbatim>\<open>e_nd\<close> (here with the prefix \<open>res_\<close>),
  \<^verbatim>\<open>heavy_atoms\<close> and \<^verbatim>\<open>hydrogens\<close>. Neither constructor initialises \<^verbatim>\<open>e_nd\<close>; it is
  \<open>None\<close> until somebody writes it.
\<close>

record result =
  res_e :: real
  res_f :: real
  res_e_nd :: "real option"
  heavy_atoms :: "vec3 list"
  hydrogens :: "vec3 list"

text \<open>The constructor \<^verbatim>\<open>result(e, f, heavy_atoms_, hydrogens_)\<close>.\<close>

definition result_ctor :: "real \<Rightarrow> real \<Rightarrow> vec3 list \<Rightarrow> vec3 list \<Rightarrow> result" where
  "result_ctor e f hs hy =
     \<lparr>res_e = e, res_f = f, res_e_nd = None, heavy_atoms = hs, hydrogens = hy\<rparr>"

text \<open>The move constructor \<^verbatim>\<open>result(result&& r)\<close> takes \<^verbatim>\<open>e\<close>, \<^verbatim>\<open>f\<close> and both coordinate
  vectors and leaves \<^verbatim>\<open>e_nd\<close> unset.\<close>

definition result_move :: "result \<Rightarrow> result" where
  "result_move r = result_ctor (res_e r) (res_f r) (heavy_atoms r) (hydrogens r)"

text \<open>
  \<^verbatim>\<open>ptr_vector<result>\<close>: the stored elements and the capacity of the underlying vector.
  \<^verbatim>\<open>push_back\<close> keeps the capacity while there is room; when there is none the vector
  reallocates, and the least capacity that holds the new element is taken here (how far
  an implementation grows beyond that is its own choice).
\<close>

record 'a ptr_vector =
  elems :: "'a list"
  capacity :: nat

definition push_back :: "'a ptr_vector \<Rightarrow> 'a \<Rightarrow> 'a ptr_vector" where
  "push_back v x =
     \<lparr>elems = elems v @ [x], capacity = max (capacity v) (Suc (length (elems v)))\<rparr>"

definition replace :: "'a ptr_vector \<Rightarrow> nat \<Rightarrow> 'a \<Rightarrow> 'a ptr_vector" where
  "replace v i x = v\<lparr>elems := (elems v)[i := x]\<rparr>"

text \<open>\<^verbatim>\<open>results.sort()\<close> orders by \<^verbatim>\<open>result::operator<\<close>, that is by \<^verbatim>\<open>e\<close>.\<close>

definition sort_results :: "result ptr_vector \<Rightarrow> result ptr_vector" where
  "sort_results v = v\<lparr>elems := sort_key res_e (elems v)\<rparr>"

text \<open>
  The search loop of \<^verbatim>\<open>add_to_result_container\<close>: one step for index \<open>i\<close>, carrying
  \<^verbatim>\<open>index\<close> and \<^verbatim>\<open>best_square_error\<close>; the loop runs \<open>i\<close> from 1 to \<^verbatim>\<open>results.size()\<close>.
  \<^verbatim>\<open>distance_sqr\<close> is not in the sources and is a parameter.
\<close>

definition closest_step ::
  "(vec3 list \<Rightarrow> vec3 list \<Rightarrow> real) \<Rightarrow> result \<Rightarrow> result list \<Rightarrow> nat \<times> real \<Rightarrow> nat \<Rightarrow> nat \<times> real" where
  "closest_step distance_sqr r rs acc i =
     (let this_square_error = distance_sqr (heavy_atoms r) (heavy_atoms (rs ! i))
      in if this_square_error < snd acc then (i, this_square_error) else acc)"

definition closest ::
  "(vec3 list \<Rightarrow> vec3 list \<Rightarrow> real) \<Rightarrow> result \<Rightarrow> result list \<Rightarrow> nat \<times> real" where
  "closest distance_sqr r rs =
     foldl (closest_step distance_sqr r rs)
       (0, distance_sqr (heavy_atoms r) (heavy_atoms (hd rs))) [1 ..< length rs]"

definition add_to_result_container ::
  "(vec3 list \<Rightarrow> vec3 list \<Rightarrow> real) \<Rightarrow> result ptr_vector \<Rightarrow> result \<Rightarrow> real \<Rightarrow> result ptr_vector" where
  "add_to_result_container distance_sqr results r required_square_error =
     (if elems results = [] then push_back results (result_move r)
      else
        let index = fst (closest distance_sqr r (elems results));
            best_square_error = snd (closest distance_sqr r (elems results))
        in sort_results
           (if best_square_error < required_square_error then
              (if res_e r < res_e (elems results ! index)
               then replace results index (result_move r)
               else results)
            else if length (elems results) < capacity results then
              push_back results (result_move r)
            else if res_e r < res_e (last (elems results)) then
              replace results (length (elems results) - 1) (result_move r)
            else results))"

section \<open>The tabulated scoring function\<close>

text \<open>
  \<^verbatim>\<open>BOOST_ASSERT\<close> and \<^verbatim>\<open>assert\<close> abort the program when the condition fails, unless the
  program was built with \<^verbatim>\<open>NDEBUG\<close>, where they are compiled out. The build is a
  parameter \<open>ndebug\<close> of every function with an assertion; an abort is the value \<open>None\<close>.
\<close>

definition assert_holds :: "bool \<Rightarrow> bool \<Rightarrow> bool" where
  "assert_holds ndebug cond = (if ndebug then True else cond)"

definition Cutoff :: real where
  "Cutoff = 8"

definition Cutoff_Sqr :: real where
  "Cutoff_Sqr = Cutoff * Cutoff"

definition Factor :: real where
  "Factor = 256"

definition Factor_Inverse :: real where
  "Factor_Inverse = 1 / Factor"

text \<open>
  \<^verbatim>\<open>static_cast<size_t>\<close> of a \<^verbatim>\<open>double\<close> truncates towards zero; the conversion is
  undefined (here \<open>None\<close>) when the truncated value is not a \<^verbatim>\<open>size_t\<close>.
\<close>

definition size_t_of_double :: "real \<Rightarrow> nat option" where
  "size_t_of_double x =
     (let t = (if 0 \<le> x then \<lfloor>x\<rfloor> else \<lceil>x\<rceil>)
      in if 0 \<le> t \<and> t < 2 ^ 64 then Some (nat t) else None)"

definition Num_Samples :: nat where
  "Num_Samples = (case size_t_of_double (Factor * Cutoff_Sqr) of Some n \<Rightarrow> n + 1 | None \<Rightarrow> 0)"

text \<open>Modelled from the spec: \<^verbatim>\<open>sqr\<close>, whose header is not in the sources; the spec
  writes the first Gaussian term as \<open>exp (- (2 d)\<^sup>2)\<close>, so \<^verbatim>\<open>sqr\<close> is the square.\<close>

definition sqr :: "real \<Rightarrow> real" where
  "sqr x = x * x"

text \<open>
  The XS type tables (\<^verbatim>\<open>xs_vdw_radius\<close>, \<^verbatim>\<open>xs_is_hydrophobic\<close>, \<^verbatim>\<open>xs_hbond\<close>) and the
  restrictive index helper of the triangular matrix are declared in headers that are not
  in the sources; they are parameters.
\<close>

record xs_tables =
  xs_vdw_radius :: "nat \<Rightarrow> real"
  xs_is_hydrophobic :: "nat \<Rightarrow> bool"
  xs_hbond :: "nat \<Rightarrow> nat \<Rightarrow> bool"

record triangular_matrix_ops =
  triangular_matrix_restrictive_index :: "nat \<Rightarrow> nat \<Rightarrow> nat"

text \<open>Modelled from the spec: the permissive index helper of the triangular matrix, which
  is not in the sources; it swaps its arguments when the first is the larger.\<close>

definition triangular_matrix_permissive_index :: "triangular_matrix_ops \<Rightarrow> nat \<Rightarrow> nat \<Rightarrow> nat" where
  "triangular_matrix_permissive_index M i j =
     (if i \<le> j then triangular_matrix_restrictive_index M i j
      else triangular_matrix_restrictive_index M j i)"

record scoring_function_element =
  sfe_e :: real
  sfe_dor :: real

type_synonym scoring_function = "scoring_function_element list list"

text \<open>\<^verbatim>\<open>scoring_function::score\<close>; the argument \<open>r\<close> is asserted to be at most \<open>Cutoff_Sqr\<close>.\<close>

definition score :: "bool \<Rightarrow> xs_tables \<Rightarrow> nat \<Rightarrow> nat \<Rightarrow> real \<Rightarrow> real option" where
  "score ndebug xs t1 t2 r =
     (if assert_holds ndebug (r \<le> Cutoff_Sqr) then
        let d = r - (xs_vdw_radius xs t1 + xs_vdw_radius xs t2)
        in Some
          ((- 0.035579) * exp (- sqr (d * 2))
           + (- 0.005156) * exp (- sqr ((d - 3.0) * 0.5))
           + 0.840245 * (if d > 0 then 0.0 else d * d)
           + (- 0.035069) *
               (if xs_is_hydrophobic xs t1 \<and> xs_is_hydrophobic xs t2
                then (if d \<ge> 1.5 then 0.0 else (if d \<le> 0.5 then 1.0 else 1.5 - d))
                else 0.0)
           + (- 0.587439) *
               (if xs_hbond xs t1 t2
                then (if d \<ge> 0 then 0.0 else (if d \<le> - 0.7 then 1 else d * (- 1.428571)))
                else 0.0))
      else None)"

text \<open>
  The first loop of \<^verbatim>\<open>precalculate\<close>, \<^verbatim>\<open>p[i].e = score(t1, t2, rs[i])\<close> for \<open>i\<close> from the
  given start up to \<open>n\<close>. Reading \<^verbatim>\<open>rs[i]\<close> or writing \<^verbatim>\<open>p[i]\<close> past the end is undefined in
  the source and aborts the model.
\<close>

function fill_e ::
  "bool \<Rightarrow> xs_tables \<Rightarrow> nat \<Rightarrow> nat \<Rightarrow> real list \<Rightarrow> nat \<Rightarrow> nat \<Rightarrow>
   scoring_function_element list \<Rightarrow> scoring_function_element list option" where
  "fill_e ndebug xs t1 t2 rs n i p =
     (if i < n then
        (if i < length rs \<and> i < length p then
           (case score ndebug xs t1 t2 (rs ! i) of
              None \<Rightarrow> None
            | Some v \<Rightarrow> fill_e ndebug xs t1 t2 rs n (Suc i) (p[i := (p ! i)\<lparr>sfe_e := v\<rparr>]))
         else None)
      else Some p)"
  by pat_completeness auto
termination
  by (relation "measure (\<lambda>(ndebug, xs, t1, t2, rs, n, i, p). n - i)") auto

text \<open>
  The second loop,
  \<^verbatim>\<open>p[i].dor = (p[i + 1].e - p[i].e) / ((rs[i + 1] - rs[i]) * rs[i])\<close> for \<open>i\<close> up to
  \<open>n\<close> (the source starts it at 1 and stops before \<^verbatim>\<open>Num_Samples - 1\<close>). A zero divisor
  gives an infinity or a NaN in the source and 0 here.
\<close>

function fill_dor ::
  "real list \<Rightarrow> nat \<Rightarrow> nat \<Rightarrow> scoring_function_element list \<Rightarrow>
   scoring_function_element list option" where
  "fill_dor rs n i p =
     (if i < n then
        (if Suc i < length rs \<and> Suc i < length p then
           fill_dor rs n (Suc i)
             (p[i := (p ! i)\<lparr>sfe_dor :=
                (sfe_e (p ! (i + 1)) - sfe_e (p ! i)) / ((rs ! (i + 1) - rs ! i) * rs ! i)\<rparr>])
         else None)
      else Some p)"
  by pat_completeness auto
termination
  by (relation "measure (\<lambda>(rs, n, i, p). n - i)") auto

text \<open>The two loops are unfolded by hand in the proofs, one turn at a time.\<close>

declare fill_e.simps [simp del]

declare fill_dor.simps [simp del]

text \<open>\<^verbatim>\<open>p.front().dor = 0; p.back().dor = 0;\<close> (undefined on an empty vector).\<close>

definition set_end_dors :: "scoring_function_element list \<Rightarrow> scoring_function_element list option" where
  "set_end_dors p =
     (if p = [] then None
      else
        let p1 = p[0 := (p ! 0)\<lparr>sfe_dor := 0\<rparr>]
        in Some (p1[length p1 - 1 := (p1 ! (length p1 - 1))\<lparr>sfe_dor := 0\<rparr>]))"

text \<open>
  \<^verbatim>\<open>scoring_function::precalculate\<close> on the entry
  \<^verbatim>\<open>(*this)[triangular_matrix_restrictive_index(t1, t2)]\<close>, asserted to hold
  \<^verbatim>\<open>Num_Samples\<close> elements.
\<close>

definition precalculate_entry ::
  "bool \<Rightarrow> xs_tables \<Rightarrow> nat \<Rightarrow> nat \<Rightarrow> real list \<Rightarrow> scoring_function_element list \<Rightarrow>
   scoring_function_element list option" where
  "precalculate_entry ndebug xs t1 t2 rs p =
     (if assert_holds ndebug (length p = Num_Samples) then
        (case fill_e ndebug xs t1 t2 rs Num_Samples 0 p of
           None \<Rightarrow> None
         | Some p1 \<Rightarrow>
             (case fill_dor rs (Num_Samples - 1) 1 p1 of
                None \<Rightarrow> None
              | Some p2 \<Rightarrow> set_end_dors p2))
      else None)"

definition precalculate ::
  "bool \<Rightarrow> triangular_matrix_ops \<Rightarrow> xs_tables \<Rightarrow> scoring_function \<Rightarrow> nat \<Rightarrow> nat \<Rightarrow> real list \<Rightarrow>
   scoring_function option" where
  "precalculate ndebug M xs sf t1 t2 rs =
     (let k = triangular_matrix_restrictive_index M t1 t2
      in if k < length sf then
           (case precalculate_entry ndebug xs t1 t2 rs (sf ! k) of
              None \<Rightarrow> None
            | Some p \<Rightarrow> Some (sf[k := p]))
         else None)"

text \<open>
  \<^verbatim>\<open>scoring_function::evaluate\<close>: one lookup at index \<^verbatim>\<open>static_cast<size_t>(Factor * r2)\<close>,
  under the assertion \<^verbatim>\<open>r2 <= Cutoff_Sqr\<close>. A lookup outside the table is undefined in
  the source and \<open>None\<close> here.
\<close>

definition evaluate_index :: "real \<Rightarrow> nat option" where
  "evaluate_index r2 = size_t_of_double (Factor * r2)"

definition evaluate ::
  "bool \<Rightarrow> scoring_function \<Rightarrow> nat \<Rightarrow> real \<Rightarrow> scoring_function_element option" where
  "evaluate ndebug sf type_pair_index r2 =
     (if assert_holds ndebug (r2 \<le> Cutoff_Sqr) then
        (case evaluate_index r2 of
           None \<Rightarrow> None
         | Some i \<Rightarrow>
             (if type_pair_index < length sf \<and> i < length (sf ! type_pair_index)
              then Some (sf ! type_pair_index ! i)
              else None))
      else None)"

section \<open>The receptor\<close>

text \<open>
  Modelled from the spec: the atom record and its two flag updates; the atom header is
  not in the sources. An atom has a serial number, a name, a coordinate, an AutoDock type
  index and the flags is-hydrogen-bond-donor and is-hydrophobic; \<^verbatim>\<open>donorize\<close> promotes
  an atom to a donor and \<^verbatim>\<open>dehydrophobicize\<close> takes the hydrophobic flag away.
\<close>

record atom =
  serial :: nat
  name :: string
  coordinate :: vec3
  ad :: nat
  is_donor :: bool
  is_hydrophobic :: bool

definition donorize :: "atom \<Rightarrow> atom" where
  "donorize a = a\<lparr>is_donor := True\<rparr>"

definition dehydrophobicize :: "atom \<Rightarrow> atom" where
  "dehydrophobicize a = a\<lparr>is_hydrophobic := False\<rparr>"

text \<open>
  The rest of the atom header and the library conversions are parameters: the type
  constants \<^verbatim>\<open>AD_TYPE_SIZE\<close>, \<^verbatim>\<open>AD_TYPE_H\<close>, \<^verbatim>\<open>AD_TYPE_HD\<close>, the table lookup
  \<^verbatim>\<open>parse_ad_type_string\<close>, the classification of a type as hetero, donor or
  hydrophobic, the bond test \<^verbatim>\<open>is_neighbor\<close>, and \<^verbatim>\<open>stoul\<close> and \<^verbatim>\<open>stod\<close>, which are
  \<open>None\<close> where the library function throws.
\<close>

record atom_tables =
  AD_TYPE_SIZE :: nat
  AD_TYPE_H :: nat
  AD_TYPE_HD :: nat
  parse_ad_type_string :: "string \<Rightarrow> nat"
  ad_is_hetero :: "nat \<Rightarrow> bool"
  ad_is_donor :: "nat \<Rightarrow> bool"
  ad_is_hydrophobic :: "nat \<Rightarrow> bool"
  is_neighbor :: "atom \<Rightarrow> atom \<Rightarrow> bool"
  stoul :: "string \<Rightarrow> nat option"
  stod :: "string \<Rightarrow> real option"

definition atom_ctor :: "atom_tables \<Rightarrow> nat \<Rightarrow> string \<Rightarrow> vec3 \<Rightarrow> nat \<Rightarrow> atom" where
  "atom_ctor T n nm c t =
     \<lparr>serial = n, name = nm, coordinate = c, ad = t,
      is_donor = ad_is_donor T t, is_hydrophobic = ad_is_hydrophobic T t\<rparr>"

definition is_hetero :: "atom_tables \<Rightarrow> atom \<Rightarrow> bool" where
  "is_hetero T a = ad_is_hetero T (ad a)"

text \<open>
  The box header is not in the sources either; the constructor uses the number of
  partitions per axis, the two projection distances and the low corner of a cell.
\<close>

record box =
  num_partitions :: "nat \<times> nat \<times> nat"
  project_distance_sqr :: "vec3 \<Rightarrow> real"
  project_distance_sqr_cell :: "vec3 \<Rightarrow> vec3 \<Rightarrow> vec3 \<Rightarrow> real"
  partition_corner1 :: "nat \<times> nat \<times> nat \<Rightarrow> vec3"

text \<open>
  What can stop the constructor before it returns: a read the language leaves undefined
  (a character past the end of the line, \<^verbatim>\<open>residue_start\<close> before its first assignment)
  and an exception of \<^verbatim>\<open>stoul\<close> or \<^verbatim>\<open>stod\<close>. The constructor has no \<^verbatim>\<open>throw\<close> of its own.
\<close>

datatype failure = Undefined_Read | Conversion_Exception

text \<open>\<^verbatim>\<open>line.substr(pos, n)\<close> for \<open>pos\<close> within the line, and \<^verbatim>\<open>isspace\<close> in the C locale.\<close>

definition substr :: "string \<Rightarrow> nat \<Rightarrow> nat \<Rightarrow> string" where
  "substr line pos n = take n (drop pos line)"

definition isspace :: "char \<Rightarrow> bool" where
  "isspace c = (c \<in> set [CHR 0x20, CHR 0x09, CHR 0x0A, CHR 0x0B, CHR 0x0C, CHR 0x0D])"

text \<open>\<^verbatim>\<open>line[i]\<close>: the terminating null character at \<open>i = size\<close>, undefined beyond.\<close>

definition char_at :: "string \<Rightarrow> nat \<Rightarrow> char option" where
  "char_at line i =
     (if i < length line then Some (line ! i)
      else if i = length line then Some (CHR 0x00)
      else None)"

text \<open>The variables of the parsing loop: the atoms so far, the current residue sequence
  and the start of the current residue, \<open>None\<close> while it is uninitialised.\<close>

record parse_state =
  atoms :: "atom list"
  residue :: string
  residue_start :: "nat option"

text \<open>
  The three backward loops over the atoms of the current residue,
  \<^verbatim>\<open>for (size_t i = atoms.size(); i > residue_start;) { b = atoms[--i]; ... }\<close>;
  the last argument is the loop variable.
\<close>

fun donorize_loop :: "atom_tables \<Rightarrow> atom \<Rightarrow> nat \<Rightarrow> atom list \<Rightarrow> nat \<Rightarrow> atom list" where
  "donorize_loop T a start as 0 = as"
| "donorize_loop T a start as (Suc i) =
     (if Suc i > start then
        (if is_hetero T (as ! i) \<and> is_neighbor T (as ! i) a
         then as[i := donorize (as ! i)]
         else donorize_loop T a start as i)
      else as)"

fun dehydrophobicize_loop :: "atom_tables \<Rightarrow> atom \<Rightarrow> nat \<Rightarrow> atom list \<Rightarrow> nat \<Rightarrow> atom list" where
  "dehydrophobicize_loop T a start as 0 = as"
| "dehydrophobicize_loop T a start as (Suc i) =
     (if Suc i > start then
        (if \<not> is_hetero T (as ! i) \<and> is_neighbor T (as ! i) a
         then dehydrophobicize_loop T a start (as[i := dehydrophobicize (as ! i)]) i
         else dehydrophobicize_loop T a start as i)
      else as)"

fun carbon_loop :: "atom_tables \<Rightarrow> atom \<Rightarrow> nat \<Rightarrow> atom list \<Rightarrow> nat \<Rightarrow> atom" where
  "carbon_loop T a start as 0 = a"
| "carbon_loop T a start as (Suc i) =
     (if Suc i > start then
        (if is_hetero T (as ! i) \<and> is_neighbor T (as ! i) a
         then dehydrophobicize a
         else carbon_loop T a start as i)
      else a)"

text \<open>
  Lines 44 to 82 of the constructor for an atom \<open>a\<close> of type \<open>t\<close> that is neither unknown
  nor a non-polar hydrogen: the branch for a polar hydrogen, for another hetero atom and
  for a carbon, each followed by \<^verbatim>\<open>atoms.push_back(a)\<close>.
\<close>

definition store_atom :: "atom_tables \<Rightarrow> parse_state \<Rightarrow> atom \<Rightarrow> failure + parse_state" where
  "store_atom T st a =
     (case residue_start st of
        None \<Rightarrow> Inl Undefined_Read
      | Some start \<Rightarrow>
          (if ad a = AD_TYPE_HD T then
             Inr (st\<lparr>atoms := donorize_loop T a start (atoms st) (length (atoms st)) @ [a]\<rparr>)
           else if is_hetero T a then
             Inr (st\<lparr>atoms := dehydrophobicize_loop T a start (atoms st) (length (atoms st)) @ [a]\<rparr>)
           else
             Inr (st\<lparr>atoms := atoms st @ [carbon_loop T a start (atoms st) (length (atoms st))]\<rparr>)))"

text \<open>Lines 26 to 33: a change in columns 23 to 26 starts a new residue.\<close>

definition track_residue :: "parse_state \<Rightarrow> string \<Rightarrow> parse_state" where
  "track_residue st line =
     (if line ! 25 \<noteq> residue st ! 3 \<or> line ! 24 \<noteq> residue st ! 2
         \<or> line ! 23 \<noteq> residue st ! 1 \<or> line ! 22 \<noteq> residue st ! 0
      then st\<lparr>residue := [line ! 22, line ! 23, line ! 24, line ! 25],
              residue_start := Some (length (atoms st))\<rparr>
      else st)"

text \<open>
  One turn of the \<^verbatim>\<open>while (getline(in, line))\<close> loop. An atom line shorter than 78
  characters makes \<^verbatim>\<open>line[78]\<close> an undefined read; from 78 characters on, every column the
  loop reads exists.
\<close>

definition parse_line :: "atom_tables \<Rightarrow> parse_state \<Rightarrow> string \<Rightarrow> failure + parse_state" where
  "parse_line T st line =
     (let record = substr line 0 6 in
      if record = ''ATOM  '' \<or> record = ''HETATM'' then
        (case char_at line 78 of
           None \<Rightarrow> Inl Undefined_Read
         | Some c78 \<Rightarrow>
             let st1 = track_residue st line;
                 ad_type_string = substr line 77 (if isspace c78 then 1 else 2);
                 t = parse_ad_type_string T ad_type_string
             in if t = AD_TYPE_SIZE T then Inr st1
                else if t = AD_TYPE_H T then Inr st1
                else
                  (case (stoul T (substr line 6 5), stod T (substr line 30 8),
                         stod T (substr line 38 8), stod T (substr line 46 8)) of
                     (Some n, Some x, Some y, Some z) \<Rightarrow>
                       store_atom T st1 (atom_ctor T n (substr line 12 4) (x, y, z) t)
                   | _ \<Rightarrow> Inl Conversion_Exception))
      else if record = ''TER   '' then Inr (st\<lparr>residue := ''XXXX''\<rparr>)
      else Inr st)"

fun parse_lines :: "atom_tables \<Rightarrow> parse_state \<Rightarrow> string list \<Rightarrow> failure + parse_state" where
  "parse_lines T st [] = Inr st"
| "parse_lines T st (line # rest) =
     (case parse_line T st line of
        Inl err \<Rightarrow> Inl err
      | Inr st' \<Rightarrow> parse_lines T st' rest)"

text \<open>
  The receptor: its atoms and, for each cell in the order of the three nested loops, the
  indices of the atoms allocated to the cell.
\<close>

record receptor =
  rec_atoms :: "atom list"
  partitions :: "nat list list"

definition cells :: "nat \<times> nat \<times> nat \<Rightarrow> (nat \<times> nat \<times> nat) list" where
  "cells n =
     concat (map (\<lambda>x. concat (map (\<lambda>y. map (\<lambda>z. (x, y, z)) [0 ..< snd (snd n)])
       [0 ..< fst (snd n)])) [0 ..< fst n])"

definition allocate :: "box \<Rightarrow> atom list \<Rightarrow> nat list list" where
  "allocate b as =
     (let receptor_atoms_within_cutoff =
            filter (\<lambda>i. project_distance_sqr b (coordinate (as ! i)) < Cutoff_Sqr) [0 ..< length as]
      in map (\<lambda>(x, y, z).
                filter (\<lambda>i. project_distance_sqr_cell b
                              (partition_corner1 b (x, y, z))
                              (partition_corner1 b (x + 1, y + 1, z + 1))
                              (coordinate (as ! i)) < Cutoff_Sqr)
                  receptor_atoms_within_cutoff)
           (cells (num_partitions b)))"

text \<open>\<^verbatim>\<open>receptor::receptor\<close> on the lines of the file.\<close>

definition receptor_ctor :: "atom_tables \<Rightarrow> string list \<Rightarrow> box \<Rightarrow> failure + receptor" where
  "receptor_ctor T lines b =
     (case parse_lines T \<lparr>atoms = [], residue = ''XXXX'', residue_start = None\<rparr> lines of
        Inl err \<Rightarrow> Inl err
      | Inr st \<Rightarrow> Inr \<lparr>rec_atoms = atoms st, partitions = allocate b (atoms st)\<rparr>)"

section \<open>The Monte Carlo task\<close>

text \<open>Modelled from the spec: the arithmetic of \<^verbatim>\<open>vec3\<close> (three doubles, standard
  arithmetic); the vector header is not in the sources.\<close>

definition vadd :: "vec3 \<Rightarrow> vec3 \<Rightarrow> vec3" where
  "vadd a b = (fst a + fst b, fst (snd a) + fst (snd b), snd (snd a) + snd (snd b))"

definition smul :: "real \<Rightarrow> vec3 \<Rightarrow> vec3" where
  "smul k a = (k * fst a, k * fst (snd a), k * snd (snd a))"

definition zero3 :: vec3 where
  "zero3 = (0, 0, 0)"

text \<open>\<^verbatim>\<open>class conformation\<close>, over a type \<open>'q\<close> of quaternions.\<close>

record 'q conformation =
  position :: vec3
  orientation :: 'q
  torsions :: "real list"

text \<open>
  What the task takes from code that is not in the sources: the ligand (its two counts,
  \<^verbatim>\<open>evaluate\<close> and \<^verbatim>\<open>compose_result\<close>), the centre and span it reads from the receptor, the
  random engine with the distribution \<^verbatim>\<open>uniform_11\<close>, the quaternion class and the
  triangular matrix. \<^verbatim>\<open>lig.evaluate\<close> writes \<^verbatim>\<open>e\<close>, \<^verbatim>\<open>f\<close> and \<^verbatim>\<open>g\<close> through references:
  it is a function of the conformation, the upper bound and the old contents of the three
  variables to the returned flag and their new contents, so that nothing is assumed about
  which of them a rejected evaluation writes. \<open>indeterminate\<close> gives the contents of the
  six \<^verbatim>\<open>float\<close> variables that are declared without an initialiser.
\<close>

record ('q, 'g) task_env =
  num_active_torsions :: nat
  num_heavy_atoms :: nat
  lig_evaluate :: "'q conformation \<Rightarrow> real \<Rightarrow> real \<times> real \<times> real list \<Rightarrow> bool \<times> real \<times> real \<times> real list"
  compose_result :: "real \<Rightarrow> 'q conformation \<Rightarrow> result"
  center :: vec3
  span :: vec3
  uniform_11 :: "'g \<Rightarrow> real \<times> 'g"
  qtn4id :: 'q
  qtn4_of_4 :: "real \<Rightarrow> real \<Rightarrow> real \<Rightarrow> real \<Rightarrow> 'q"
  qtn4_of_vec3 :: "vec3 \<Rightarrow> 'q"
  normalize :: "'q \<Rightarrow> 'q"
  qtn4_mul :: "'q \<Rightarrow> 'q \<Rightarrow> 'q"
  is_normalized :: "'q \<Rightarrow> bool"
  matrix :: triangular_matrix_ops
  indeterminate :: "nat \<Rightarrow> real"
  ndebug :: bool

definition conformation_ctor :: "('q, 'g) task_env \<Rightarrow> 'q conformation" where
  "conformation_ctor env =
     \<lparr>position = zero3, orientation = qtn4id env,
      torsions = replicate (num_active_torsions env) 0\<rparr>"

text \<open>The constants of \<^verbatim>\<open>monte_carlo_task\<close>.\<close>

definition num_alphas :: nat where
  "num_alphas = 5"

definition num_mc_iterations :: nat where
  "num_mc_iterations = 50"

definition num_variables :: "('q, 'g) task_env \<Rightarrow> nat" where
  "num_variables env = 6 + num_active_torsions env"

definition e_upper_bound :: "('q, 'g) task_env \<Rightarrow> real" where
  "e_upper_bound env = 40.0 * real (num_heavy_atoms env)"

text \<open>
  The variables of the task that live across statements: the engine, the result slot
  \<^verbatim>\<open>r\<close>, the three conformations with their energies and gradients, and the inverse
  Hessian \<^verbatim>\<open>h\<close>. The other variables (\<^verbatim>\<open>p\<close>, \<^verbatim>\<open>pg1\<close>, \<^verbatim>\<open>alpha\<close>, \<^verbatim>\<open>y\<close>, \<^verbatim>\<open>mhy\<close>, ...) are
  assigned in every inner iteration before they are read and are local to it here.
  The fields \<open>r_out\<close> and \<open>h_mat\<close> are the variables \<^verbatim>\<open>r\<close> and \<^verbatim>\<open>h\<close>.
\<close>

record ('q, 'g) task_state =
  eng :: 'g
  r_out :: result
  c0 :: "'q conformation"
  e0 :: real
  f0 :: real
  g0 :: "real list"
  c1 :: "'q conformation"
  e1 :: real
  f1 :: real
  g1 :: "real list"
  c2 :: "'q conformation"
  e2 :: real
  f2 :: real
  g2 :: "real list"
  h_mat :: "real list"

text \<open>\<open>n\<close> successive draws of \<^verbatim>\<open>uniform_11(eng)\<close>.\<close>

fun draws :: "('q, 'g) task_env \<Rightarrow> nat \<Rightarrow> 'g \<Rightarrow> real list \<times> 'g" where
  "draws env 0 g = ([], g)"
| "draws env (Suc n) g =
     (let u = uniform_11 env g; rest = draws env n (snd u)
      in (fst u # fst rest, snd rest))"

text \<open>Lines 50 to 52: the identity matrix in packed storage, which by the spec holds
  \<open>n (n + 1) / 2\<close> elements for \<open>n\<close> variables.\<close>

definition identity_hessian :: "('q, 'g) task_env \<Rightarrow> real list" where
  "identity_hessian env =
     foldl (\<lambda>m i. m[triangular_matrix_restrictive_index (matrix env) i i := 1])
       (replicate (num_variables env * (num_variables env + 1) div 2) 0)
       [0 ..< num_variables env]"

text \<open>
  Lines 25 to 34: the random conformation \<^verbatim>\<open>c0\<close>. One draw scales the whole span; four
  draws make the orientation and one draw each torsion. The order in which C++ evaluates
  the four arguments of \<^verbatim>\<open>qtn4\<close> is unspecified; they are taken from left to right.
\<close>

definition randomize_c0 :: "('q, 'g) task_env \<Rightarrow> 'g \<Rightarrow> 'q conformation \<times> 'g" where
  "randomize_c0 env g =
     (let u = uniform_11 env g;
          q = draws env 4 (snd u);
          t = draws env (num_active_torsions env) (snd q)
      in (\<lparr>position = vadd (center env) (smul (fst u) (span env)),
           orientation = normalize env (qtn4_of_4 env (fst q ! 0) (fst q ! 1) (fst q ! 2) (fst q ! 3)),
           torsions = fst t\<rparr>,
          snd t))"

text \<open>Lines 21 to 58: the state in which the outer loop starts.\<close>

definition random_start :: "('q, 'g) task_env \<Rightarrow> 'g \<Rightarrow> ('q, 'g) task_state" where
  "random_start env g =
     (let c = randomize_c0 env g;
          ev = lig_evaluate env (fst c) (e_upper_bound env)
                 (indeterminate env 0, indeterminate env 1, replicate (6 + num_active_torsions env) 0)
      in \<lparr>eng = snd c,
          r_out = compose_result env (fst (snd ev)) (fst c),
          c0 = fst c, e0 = fst (snd ev), f0 = fst (snd (snd ev)), g0 = snd (snd (snd ev)),
          c1 = conformation_ctor env, e1 = indeterminate env 2, f1 = indeterminate env 3,
          g1 = replicate (6 + num_active_torsions env) 0,
          c2 = conformation_ctor env, e2 = indeterminate env 4, f2 = indeterminate env 5,
          g2 = replicate (6 + num_active_torsions env) 0,
          h_mat = identity_hessian env\<rparr>)"

text \<open>Lines 63 to 65: the mutation. The three draws are taken from left to right.\<close>

definition mutate :: "('q, 'g) task_env \<Rightarrow> ('q, 'g) task_state \<Rightarrow> ('q, 'g) task_state" where
  "mutate env s =
     (let d = draws env 3 (eng s)
      in s\<lparr>eng := snd d,
           c1 := (c0 s)\<lparr>position := vadd (position (c0 s)) (fst d ! 0, fst d ! 1, fst d ! 2)\<rparr>\<rparr>)"

text \<open>Lines 66 to 69: the evaluation of the mutated conformation, whose returned flag is
  not looked at, and the reset of the inverse Hessian.\<close>

definition evaluate_c1 :: "('q, 'g) task_env \<Rightarrow> ('q, 'g) task_state \<Rightarrow> ('q, 'g) task_state" where
  "evaluate_c1 env s =
     (let ev = lig_evaluate env (c1 s) (e_upper_bound env) (e1 s, f1 s, g1 s)
      in s\<lparr>e1 := fst (snd ev), f1 := fst (snd (snd ev)), g1 := snd (snd (snd ev)),
           h_mat := identity_hessian env\<rparr>)"

text \<open>Lines 79 to 90: the descent direction \<open>p = - h g\<close> and a scalar product.\<close>

definition mat_vec :: "('q, 'g) task_env \<Rightarrow> real list \<Rightarrow> real list \<Rightarrow> real list" where
  "mat_vec env h v =
     map (\<lambda>i. - foldl (\<lambda>sum j. sum + h ! triangular_matrix_permissive_index (matrix env) i j * v ! j)
                 0 [0 ..< num_variables env])
       [0 ..< num_variables env]"

definition dot :: "('q, 'g) task_env \<Rightarrow> real list \<Rightarrow> real list \<Rightarrow> real" where
  "dot env a b = foldl (\<lambda>sum i. sum + a ! i * b ! i) 0 [0 ..< num_variables env]"

text \<open>Lines 99 to 106: the trial conformation \<open>c2 = c1 + alpha p\<close>, written into \<^verbatim>\<open>c2\<close>.\<close>

definition step_torsions :: "('q, 'g) task_env \<Rightarrow> real \<Rightarrow> real list \<Rightarrow> real list \<Rightarrow> real list \<Rightarrow> real list" where
  "step_torsions env alpha p t1 t2 =
     foldl (\<lambda>t i. t[i := t1 ! i + alpha * p ! (6 + i)]) t2 [0 ..< num_active_torsions env]"

definition trial_conformation ::
  "('q, 'g) task_env \<Rightarrow> real \<Rightarrow> real list \<Rightarrow> 'q conformation \<Rightarrow> 'q conformation \<Rightarrow> 'q conformation" where
  "trial_conformation env alpha p a b =
     \<lparr>position = vadd (position a) (smul alpha (p ! 0, p ! 1, p ! 2)),
      orientation = qtn4_mul env (qtn4_of_vec3 env (smul alpha (p ! 3, p ! 4, p ! 5))) (orientation a),
      torsions = step_torsions env alpha p (torsions a) (torsions b)\<rparr>"

text \<open>
  Lines 95 to 121: the line search. It ends in an accepted step length (the \<^verbatim>\<open>break\<close>),
  with all trials used up, or in a failed assertion. The first numeric argument counts
  the trials that are left, \<^verbatim>\<open>num_alphas - num_alpha_trials\<close>.
\<close>

datatype 'a search = Aborted | Accepted real 'a | Exhausted 'a

text \<open>One trial: the state after \<^verbatim>\<open>c2\<close> is built and evaluated under the upper bound
  \<^verbatim>\<open>e1 + 0.0001f * alpha * pg1\<close> (lines 99 to 111), and the test of lines 111 to 117 that
  ends the search.\<close>

definition trial_state ::
  "('q, 'g) task_env \<Rightarrow> real list \<Rightarrow> real \<Rightarrow> real \<Rightarrow> ('q, 'g) task_state \<Rightarrow> ('q, 'g) task_state" where
  "trial_state env p pg1 alpha s =
     (let c = trial_conformation env alpha p (c1 s) (c2 s);
          ev = lig_evaluate env c (e1 s + 0.0001 * alpha * pg1) (e2 s, f2 s, g2 s)
      in s\<lparr>c2 := c, e2 := fst (snd ev), f2 := fst (snd (snd ev)), g2 := snd (snd (snd ev))\<rparr>)"

definition trial_accepted ::
  "('q, 'g) task_env \<Rightarrow> real list \<Rightarrow> real \<Rightarrow> real \<Rightarrow> ('q, 'g) task_state \<Rightarrow> bool" where
  "trial_accepted env p pg1 alpha s =
     (fst (lig_evaluate env (trial_conformation env alpha p (c1 s) (c2 s))
             (e1 s + 0.0001 * alpha * pg1) (e2 s, f2 s, g2 s))
      \<and> dot env p (g2 (trial_state env p pg1 alpha s)) \<ge> 0.9 * pg1)"

fun line_search ::
  "('q, 'g) task_env \<Rightarrow> real list \<Rightarrow> real \<Rightarrow> nat \<Rightarrow> real \<Rightarrow> ('q, 'g) task_state \<Rightarrow>
   ('q, 'g) task_state search" where
  "line_search env p pg1 0 alpha s = Exhausted s"
| "line_search env p pg1 (Suc k) alpha s =
     (if assert_holds (ndebug env) (is_normalized env (orientation (c1 s))) then
        (if assert_holds (ndebug env)
              (is_normalized env (orientation (trial_conformation env alpha p (c1 s) (c2 s)))) then
           (if trial_accepted env p pg1 alpha s
            then Accepted alpha (trial_state env p pg1 alpha s)
            else line_search env p pg1 k (alpha * 0.1) (trial_state env p pg1 alpha s))
         else Aborted)
      else Aborted)"

text \<open>Lines 127 to 154: the update of \<^verbatim>\<open>h\<close> and the move to the next inner iteration.
  Where \<^verbatim>\<open>yp\<close> is 0 the source divides by zero (an infinity or a NaN); \<open>1 / 0\<close> is 0 here.\<close>

definition upper_pairs :: "nat \<Rightarrow> (nat \<times> nat) list" where
  "upper_pairs n = concat (map (\<lambda>i. map (\<lambda>j. (i, j)) [i ..< n]) [0 ..< n])"

definition update_hessian ::
  "('q, 'g) task_env \<Rightarrow> real list \<Rightarrow> real \<Rightarrow> ('q, 'g) task_state \<Rightarrow> real list" where
  "update_hessian env p alpha s =
     (let y = map (\<lambda>i. g2 s ! i - g1 s ! i) [0 ..< num_variables env];
          mhy = mat_vec env (h_mat s) y;
          yhy = foldl (\<lambda>acc i. acc - y ! i * mhy ! i) 0 [0 ..< num_variables env];
          yp = dot env y p;
          ryp = 1 / yp;
          pco = ryp * (ryp * yhy + alpha)
      in foldl (\<lambda>h (i, j).
                  h[triangular_matrix_restrictive_index (matrix env) i j :=
                      h ! triangular_matrix_restrictive_index (matrix env) i j
                      + (ryp * (mhy ! i * p ! j + mhy ! j * p ! i) + pco * p ! i * p ! j)])
           (h_mat s) (upper_pairs (num_variables env)))"

definition advance :: "('q, 'g) task_env \<Rightarrow> real list \<Rightarrow> real \<Rightarrow> ('q, 'g) task_state \<Rightarrow> ('q, 'g) task_state" where
  "advance env p alpha s =
     s\<lparr>h_mat := update_hessian env p alpha s, c1 := c2 s, e1 := e2 s, f1 := f2 s, g1 := g2 s\<rparr>"

text \<open>
  Lines 76 to 155: the inner loop \<^verbatim>\<open>while (true)\<close>. Nothing bounds the number of its
  iterations, so it is a partial function: \<open>None\<close> is a loop that never ends,
  \<open>Some None\<close> a failed assertion and \<open>Some (Some s)\<close> the state at the \<^verbatim>\<open>break\<close>.
\<close>

partial_function (option) bfgs ::
  "('q, 'g) task_env \<Rightarrow> ('q, 'g) task_state \<Rightarrow> ('q, 'g) task_state option option" where
  "bfgs env s =
     (case line_search env (mat_vec env (h_mat s) (g1 s))
             (dot env (mat_vec env (h_mat s) (g1 s)) (g1 s)) num_alphas 1 s of
        Aborted \<Rightarrow> Some None
      | Exhausted s' \<Rightarrow> Some (Some s')
      | Accepted alpha s' \<Rightarrow> bfgs env (advance env (mat_vec env (h_mat s) (g1 s)) alpha s'))"

text \<open>Lines 157 to 165: the acceptance test.\<close>

definition accept :: "('q, 'g) task_env \<Rightarrow> ('q, 'g) task_state \<Rightarrow> ('q, 'g) task_state" where
  "accept env s =
     (if e1 s < e0 s
      then s\<lparr>r_out := compose_result env (e1 s) (c1 s), c0 := c1 s, e0 := e1 s\<rparr>
      else s)"

text \<open>One turn of the outer loop, and the loop with the number of turns that are left.\<close>

definition local_optimum :: "('q, 'g) task_env \<Rightarrow> ('q, 'g) task_state \<Rightarrow> ('q, 'g) task_state option option" where
  "local_optimum env s = bfgs env (evaluate_c1 env (mutate env s))"

definition mc_iteration :: "('q, 'g) task_env \<Rightarrow> ('q, 'g) task_state \<Rightarrow> ('q, 'g) task_state option option" where
  "mc_iteration env s =
     (case local_optimum env s of
        None \<Rightarrow> None
      | Some None \<Rightarrow> Some None
      | Some (Some s') \<Rightarrow> Some (Some (accept env s')))"

fun mc_loop :: "('q, 'g) task_env \<Rightarrow> nat \<Rightarrow> ('q, 'g) task_state \<Rightarrow> ('q, 'g) task_state option option" where
  "mc_loop env 0 s = Some (Some s)"
| "mc_loop env (Suc k) s =
     (case mc_iteration env s of
        None \<Rightarrow> None
      | Some None \<Rightarrow> Some None
      | Some (Some s') \<Rightarrow> mc_loop env k s')"

text \<open>\<^verbatim>\<open>monte_carlo_task\<close>: the state when the function returns; its result is in \<open>r_out\<close>.\<close>

definition monte_carlo_task :: "('q, 'g) task_env \<Rightarrow> 'g \<Rightarrow> ('q, 'g) task_state option option" where
  "monte_carlo_task env seed_eng = mc_loop env num_mc_iterations (random_start env seed_eng)"

section \<open>Instances for evaluating the model\<close>

text \<open>
  The theorems below hold for every value of the parameters. To run the model on concrete
  inputs the parameters need values; the definitions of this section provide some.
\<close>

text \<open>A squared error for \<open>distance_sqr\<close>: the sum of the squared distances of the atoms
  in the order of the two vectors.\<close>

definition sum_distance_sqr :: "vec3 list \<Rightarrow> vec3 list \<Rightarrow> real" where
  "sum_distance_sqr a b =
     sum_list (map2 (\<lambda>p q. sqr (fst p - fst q) + sqr (fst (snd p) - fst (snd q))
                            + sqr (snd (snd p) - snd (snd q))) a b)"

text \<open>A result of one heavy atom on the x axis, and a full container of three of them.\<close>

definition pose :: "real \<Rightarrow> real \<Rightarrow> result" where
  "pose e x = result_ctor e e [(x, 0, 0)] []"

definition full_pool :: "result ptr_vector" where
  "full_pool = \<lparr>elems = [pose (- 5) 0, pose (- 3) 10, pose (- 2) 20], capacity = 3\<rparr>"

text \<open>The usual packed index of an upper triangular matrix, type tables in which every
  radius is 1, the grid \<open>rs[i] = i / Factor\<close> and a table of one zeroed entry.\<close>

definition packed_index :: triangular_matrix_ops where
  "packed_index = \<lparr>triangular_matrix_restrictive_index = (\<lambda>i j. i + j * (j + 1) div 2)\<rparr>"

definition unit_radii :: xs_tables where
  "unit_radii = \<lparr>xs_vdw_radius = (\<lambda>t. 1), xs_is_hydrophobic = (\<lambda>t. True), xs_hbond = (\<lambda>a b. False)\<rparr>"

definition sample_grid :: "real list" where
  "sample_grid = map (\<lambda>i. real i / Factor) [0 ..< Num_Samples]"

definition empty_table :: scoring_function where
  "empty_table = [replicate Num_Samples \<lparr>sfe_e = 0, sfe_dor = 0\<rparr>]"

text \<open>
  A small task for running the model: a rigid body in a release build, with quaternions
  as four reals, every rotation the identity, an engine that counts its draws and returns
  \<open>- 1\<close>, \<open>- 1/2\<close>, \<open>0\<close>, \<open>1/2\<close> in turn, and the ligand's evaluation as an argument.
\<close>

definition toy_env ::
  "nat \<Rightarrow> ((real \<times> real \<times> real \<times> real) conformation \<Rightarrow> real \<Rightarrow> real \<times> real \<times> real list
           \<Rightarrow> bool \<times> real \<times> real \<times> real list)
   \<Rightarrow> (real \<times> real \<times> real \<times> real, nat) task_env" where
  "toy_env n ev =
     \<lparr>num_active_torsions = n, num_heavy_atoms = 1,
      lig_evaluate = ev,
      compose_result = (\<lambda>e c. result_ctor e e [position c] []),
      center = (0, 0, 0), span = (1, 2, 3),
      uniform_11 = (\<lambda>g. ((real (g mod 4) - 2) / 2, Suc g)),
      qtn4id = (1, 0, 0, 0),
      qtn4_of_4 = (\<lambda>a b c d. (a, b, c, d)),
      qtn4_of_vec3 = (\<lambda>v. (1, 0, 0, 0)),
      normalize = (\<lambda>q. q),
      qtn4_mul = (\<lambda>a b. b),
      is_normalized = (\<lambda>q. True),
      matrix = packed_index,
      indeterminate = (\<lambda>k. 0),
      ndebug = True\<rparr>"

text \<open>An evaluation that rejects every conformation, with the first coordinate of the
  position as energy and the gradient left as it was, and one that accepts every
  conformation with energy 0.\<close>

definition reject_all ::
  "(real \<times> real \<times> real \<times> real) conformation \<Rightarrow> real \<Rightarrow> real \<times> real \<times> real list
   \<Rightarrow> bool \<times> real \<times> real \<times> real list" where
  "reject_all c ub io = (False, fst (position c), fst (position c), snd (snd io))"

definition accept_flat ::
  "(real \<times> real \<times> real \<times> real) conformation \<Rightarrow> real \<Rightarrow> real \<times> real \<times> real list
   \<Rightarrow> bool \<times> real \<times> real \<times> real list" where
  "accept_flat c ub io = (True, 0, 0, snd (snd io))"

text \<open>A state of the task with one torsion of 1 radian in \<open>c1\<close>, the identity as inverse
  Hessian and a gradient along the torsion.\<close>

definition toy_state :: "(real \<times> real \<times> real \<times> real, nat) task_state" where
  "toy_state =
     \<lparr>eng = 0, r_out = result_ctor 0 0 [] [],
      c0 = \<lparr>position = zero3, orientation = (1, 0, 0, 0), torsions = [1]\<rparr>,
      e0 = 0, f0 = 0, g0 = [0, 0, 0, 0, 0, 0, - 3],
      c1 = \<lparr>position = zero3, orientation = (1, 0, 0, 0), torsions = [1]\<rparr>,
      e1 = 0, f1 = 0, g1 = [0, 0, 0, 0, 0, 0, - 3],
      c2 = \<lparr>position = zero3, orientation = (1, 0, 0, 0), torsions = [0]\<rparr>,
      e2 = 0, f2 = 0, g2 = [0, 0, 0, 0, 0, 0, 0],
      h_mat = [1, 0, 1, 0, 0, 1, 0, 0, 0, 1, 0, 0, 0, 0, 1, 0, 0, 0, 0, 0, 1, 0, 0, 0, 0, 0, 0, 1]\<rparr>"

text \<open>
  A type table for running the receptor constructor: nine AutoDock types with the two
  hydrogens first, the types from \<open>N\<close> on hetero, the two carbons hydrophobic, no type a
  donor from the start, a bond between atoms less than 1.2 apart, and conversions that
  know the fields of the lines below.
\<close>

fun index_of :: "'a list \<Rightarrow> 'a \<Rightarrow> nat" where
  "index_of [] x = 0"
| "index_of (y # ys) x = (if x = y then 0 else Suc (index_of ys x))"

definition ad_type_strings :: "string list" where
  "ad_type_strings = [''H'', ''HD'', ''C'', ''A'', ''N'', ''NA'', ''OA'', ''SA'', ''S'']"

definition close_by :: "atom \<Rightarrow> atom \<Rightarrow> bool" where
  "close_by a b =
     (sqr (fst (coordinate a) - fst (coordinate b))
      + sqr (fst (snd (coordinate a)) - fst (snd (coordinate b)))
      + sqr (snd (snd (coordinate a)) - snd (snd (coordinate b))) < sqr 1.2)"

definition nine_types :: atom_tables where
  "nine_types =
     \<lparr>AD_TYPE_SIZE = 9, AD_TYPE_H = 0, AD_TYPE_HD = 1,
      parse_ad_type_string = index_of ad_type_strings,
      ad_is_hetero = (\<lambda>t. 4 \<le> t),
      ad_is_donor = (\<lambda>t. False),
      ad_is_hydrophobic = (\<lambda>t. t = 2 \<or> t = 3),
      is_neighbor = close_by,
      stoul = map_of [(''    1'', 1), (''    2'', 2), (''    3'', 3)],
      stod = map_of [(''   0.000'', 0), (''   1.000'', 1), (''   1.500'', 3 / 2)]\<rparr>"

text \<open>Four lines of a receptor file: a nitrogen, a polar hydrogen bonded to it, an atom
  of a type that is not in the table, and a carbon.\<close>

definition line_N :: string where
  "line_N = ''ATOM      1  N   SER A   1       0.000   0.000   0.000  0.00  0.00    -0.500 N ''"

definition line_HD :: string where
  "line_HD = ''ATOM      2  H   SER A   1       1.000   0.000   0.000  0.00  0.00     0.300 HD''"

definition line_Xx :: string where
  "line_Xx = ''ATOM      2  X   SER A   1       1.000   0.000   0.000  0.00  0.00     0.000 Xx''"

definition line_C :: string where
  "line_C = ''ATOM      3  CA  SER A   1       1.500   0.000   0.000  0.00  0.00     0.100 C ''"

section \<open>Invariants used in the proofs\<close>

text \<open>The search loop of \<open>add_to_result_container\<close> after the indices below \<open>n\<close>: the
  accumulator holds the first index of least squared error and that error.\<close>

definition closest_inv ::
  "(vec3 list \<Rightarrow> vec3 list \<Rightarrow> real) \<Rightarrow> result \<Rightarrow> result list \<Rightarrow> nat \<Rightarrow> nat \<times> real \<Rightarrow> bool" where
  "closest_inv dsq r rs n acc =
     (fst acc < n
      \<and> snd acc = dsq (heavy_atoms r) (heavy_atoms (rs ! fst acc))
      \<and> (\<forall>j<n. snd acc \<le> dsq (heavy_atoms r) (heavy_atoms (rs ! j)))
      \<and> (\<forall>j<fst acc. snd acc < dsq (heavy_atoms r) (heavy_atoms (rs ! j))))"

text \<open>The variables of the outer loop that the mutation and the inner loop leave alone:
  the retained conformation with its energy, and the result slot.\<close>

definition outer_kept :: "('q, 'g) task_state \<Rightarrow> ('q, 'g) task_state \<Rightarrow> bool" where
  "outer_kept s s' = (c0 s' = c0 s \<and> e0 s' = e0 s \<and> r_out s' = r_out s)"

text \<open>The task with another flag returned by every evaluation, the values that the
  evaluation writes being the same.\<close>

definition with_flag :: "bool \<Rightarrow> ('q, 'g) task_env \<Rightarrow> ('q, 'g) task_env" where
  "with_flag b env = env\<lparr>lig_evaluate := (\<lambda>c ub io. (b, snd (lig_evaluate env c ub io)))\<rparr>"

section \<open>Properties of the result container\<close>

lemma closest_inv_step:
  assumes "closest_inv dsq r rs n acc"
  shows "closest_inv dsq r rs (Suc n) (closest_step dsq r rs acc n)"
proof (cases "dsq (heavy_atoms r) (heavy_atoms (rs ! n)) < snd acc")
  case True
  with assms show ?thesis
    unfolding closest_inv_def closest_step_def Let_def
    by (auto simp: less_Suc_eq)
next
  case False
  with assms show ?thesis
    unfolding closest_inv_def closest_step_def Let_def
    by (auto simp: less_Suc_eq)
qed

lemma closest_fold_inv:
  assumes "1 \<le> n"
  shows "closest_inv dsq r rs n
           (foldl (closest_step dsq r rs) (0, dsq (heavy_atoms r) (heavy_atoms (rs ! 0))) [1 ..< n])"
  using assms
proof (induction n)
  case 0
  then show ?case by simp
next
  case (Suc n)
  show ?case
  proof (cases "n = 0")
    case True
    then show ?thesis by (simp add: closest_inv_def)
  next
    case False
    then have upt: "[1 ..< Suc n] = [1 ..< n] @ [n]" by simp
    from False Suc.IH have "closest_inv dsq r rs n
           (foldl (closest_step dsq r rs) (0, dsq (heavy_atoms r) (heavy_atoms (rs ! 0))) [1 ..< n])"
      by simp
    from closest_inv_step[OF this] show ?thesis
      unfolding upt by simp
  qed
qed

lemma closest_spec:
  assumes "rs \<noteq> []"
  shows "closest_inv dsq r rs (length rs) (closest dsq r rs)"
proof -
  from assms have n: "1 \<le> length rs" by (cases rs; simp)
  from assms have hd: "hd rs = rs ! 0" by (simp add: hd_conv_nth)
  show ?thesis unfolding closest_def hd by (rule closest_fold_inv[OF n])
qed


lemma sort_results_sorted: "sorted (map res_e (elems (sort_results v)))"
  by (simp add: sort_results_def)

lemma sort_results_length: "length (elems (sort_results v)) = length (elems v)"
  by (simp add: sort_results_def)

lemma sort_results_capacity: "capacity (sort_results v) = capacity v"
  by (simp add: sort_results_def)

lemma sorted_last_worst:
  assumes "sorted (map res_e xs)" "x \<in> set xs"
  shows "res_e x \<le> res_e (last xs)"
proof -
  from assms(2) obtain k where k: "k < length xs" "xs ! k = x" by (auto simp: in_set_conv_nth)
  then have ne: "xs \<noteq> []" by auto
  from k have "k \<le> length xs - 1" by simp
  with assms(1) k have "map res_e xs ! k \<le> map res_e xs ! (length xs - 1)"
    by (intro sorted_nth_mono) simp_all
  with k ne show ?thesis by (simp add: last_conv_nth)
qed

text \<open>
  Claim C3. For a non-empty container \<open>S\<close> whose size is within its capacity and a
  result \<open>r\<close>, let \<open>i\<close> be the index the search loop ends with. Then \<open>i\<close> is the first index
  of least squared error \<open>d i\<close>. If \<open>d i < tau\<close>, the result replaces \<open>S[i]\<close> when its energy
  is strictly lower and is dropped otherwise. If \<open>tau \<le> d i\<close>, the result is appended when
  there is room, replaces the last member (the worst one of a sorted container) when the
  container is full and its energy is strictly lower, and is dropped otherwise. In every
  case the container is then sorted by energy, ascending, its capacity is unchanged and
  its size is within the capacity. What is stored is the moved result, which has the
  energy and the heavy atoms of \<open>r\<close>.
\<close>

theorem add_to_result_container_cases:
  assumes "elems S \<noteq> []" and "length (elems S) \<le> capacity S"
  shows
    "let i = fst (closest distance_sqr r (elems S));
         d = (\<lambda>j. distance_sqr (heavy_atoms r) (heavy_atoms (elems S ! j)));
         S' = add_to_result_container distance_sqr S r tau
     in i < length (elems S)
        \<and> (\<forall>j<length (elems S). d i \<le> d j)
        \<and> (\<forall>j<i. d i < d j)
        \<and> (d i < tau \<and> res_e r < res_e (elems S ! i) \<longrightarrow>
             elems S' = sort_key res_e ((elems S)[i := result_move r]))
        \<and> (d i < tau \<and> \<not> res_e r < res_e (elems S ! i) \<longrightarrow>
             elems S' = sort_key res_e (elems S))
        \<and> (tau \<le> d i \<and> length (elems S) < capacity S \<longrightarrow>
             elems S' = sort_key res_e (elems S @ [result_move r]))
        \<and> (tau \<le> d i \<and> length (elems S) = capacity S \<and> res_e r < res_e (last (elems S)) \<longrightarrow>
             elems S' = sort_key res_e ((elems S)[length (elems S) - 1 := result_move r]))
        \<and> (tau \<le> d i \<and> length (elems S) = capacity S \<and> \<not> res_e r < res_e (last (elems S)) \<longrightarrow>
             elems S' = sort_key res_e (elems S))
        \<and> res_e (result_move r) = res_e r
        \<and> heavy_atoms (result_move r) = heavy_atoms r
        \<and> (sorted (map res_e (elems S)) \<longrightarrow> (\<forall>x\<in>set (elems S). res_e x \<le> res_e (last (elems S))))
        \<and> sorted (map res_e (elems S'))
        \<and> length (elems S') \<le> capacity S'
        \<and> capacity S' = capacity S"
proof -
  note inv = closest_spec[OF assms(1), of distance_sqr r, unfolded closest_inv_def]
  define i where "i = fst (closest distance_sqr r (elems S))"
  define d where "d = (\<lambda>j. distance_sqr (heavy_atoms r) (heavy_atoms (elems S ! j)))"
  define S' where "S' = add_to_result_container distance_sqr S r tau"
  have best: "snd (closest distance_sqr r (elems S)) = d i"
    using inv unfolding i_def d_def by blast
  have i_lt: "i < length (elems S)" using inv unfolding i_def by blast
  have "\<forall>j<length (elems S). snd (closest distance_sqr r (elems S)) \<le> d j"
    using inv unfolding d_def by blast
  then have i_min: "\<forall>j<length (elems S). d i \<le> d j" unfolding best .
  have "\<forall>j<i. snd (closest distance_sqr r (elems S)) < d j"
    using inv unfolding i_def d_def by blast
  then have i_first: "\<forall>j<i. d i < d j" unfolding best .
  have S'_eq: "S' = sort_results
           (if d i < tau then
              (if res_e r < res_e (elems S ! i)
               then replace S i (result_move r)
               else S)
            else if length (elems S) < capacity S then
              push_back S (result_move r)
            else if res_e r < res_e (last (elems S)) then
              replace S (length (elems S) - 1) (result_move r)
            else S)"
    using assms(1) best
    by (simp add: S'_def add_to_result_container_def Let_def i_def)
  have c1: "d i < tau \<and> res_e r < res_e (elems S ! i) \<longrightarrow>
             elems S' = sort_key res_e ((elems S)[i := result_move r])"
    by (simp add: S'_eq sort_results_def replace_def)
  have c2: "d i < tau \<and> \<not> res_e r < res_e (elems S ! i) \<longrightarrow>
             elems S' = sort_key res_e (elems S)"
    by (simp add: S'_eq sort_results_def)
  have c3: "tau \<le> d i \<and> length (elems S) < capacity S \<longrightarrow>
             elems S' = sort_key res_e (elems S @ [result_move r])"
    by (simp add: S'_eq sort_results_def push_back_def)
  have c4: "tau \<le> d i \<and> length (elems S) = capacity S \<and> res_e r < res_e (last (elems S)) \<longrightarrow>
             elems S' = sort_key res_e ((elems S)[length (elems S) - 1 := result_move r])"
    by (simp add: S'_eq sort_results_def replace_def)
  have c5: "tau \<le> d i \<and> length (elems S) = capacity S \<and> \<not> res_e r < res_e (last (elems S)) \<longrightarrow>
             elems S' = sort_key res_e (elems S)"
    by (simp add: S'_eq sort_results_def)
  have mv: "res_e (result_move r) = res_e r" "heavy_atoms (result_move r) = heavy_atoms r"
    by (simp_all add: result_move_def result_ctor_def)
  have worst: "sorted (map res_e (elems S)) \<longrightarrow> (\<forall>x\<in>set (elems S). res_e x \<le> res_e (last (elems S)))"
    using sorted_last_worst by blast
  have srt: "sorted (map res_e (elems S'))"
    unfolding S'_eq by (rule sort_results_sorted)
  have cap: "capacity S' = capacity S"
    using assms(2) by (simp add: S'_eq sort_results_def replace_def push_back_def)
  have len: "length (elems S') \<le> capacity S'"
    unfolding cap using assms(2) by (simp add: S'_eq sort_results_def replace_def push_back_def)
  show ?thesis
    unfolding Let_def
    using i_lt i_min i_first c1 c2 c3 c4 c5 mv worst srt len cap
    unfolding i_def d_def S'_def
    by blast
qed


lemma closest_full_pool:
  "closest sum_distance_sqr (pose (- 4) 30) (elems full_pool) = (2, 100)"
  by (simp add: closest_def closest_step_def full_pool_def pose_def result_ctor_def
      sum_distance_sqr_def sqr_def upt_rec Let_def)

theorem add_to_result_container_cases_witness:
  "elems full_pool \<noteq> [] \<and> length (elems full_pool) \<le> capacity full_pool
   \<and> elems (add_to_result_container sum_distance_sqr full_pool (pose (- 4) 30) 4)
       = [pose (- 5) 0, pose (- 4) 30, pose (- 3) 10]
   \<and> length (elems (add_to_result_container sum_distance_sqr full_pool (pose (- 4) 30) 4))
       \<le> capacity (add_to_result_container sum_distance_sqr full_pool (pose (- 4) 30) 4)"
proof -
  have h1: "elems full_pool \<noteq> []" by (simp add: full_pool_def)
  have h2: "length (elems full_pool) \<le> capacity full_pool" by (simp add: full_pool_def)
  have far: "(4::real) \<le> sum_distance_sqr (heavy_atoms (pose (- 4) 30)) (heavy_atoms (elems full_pool ! 2))"
    by (simp add: full_pool_def pose_def result_ctor_def sum_distance_sqr_def sqr_def)
  have full: "length (elems full_pool) = capacity full_pool" by (simp add: full_pool_def)
  have better: "res_e (pose (- 4) 30) < res_e (last (elems full_pool))"
    by (simp add: full_pool_def pose_def result_ctor_def)
  have srt: "sort_key res_e ((elems full_pool)[length (elems full_pool) - 1 := result_move (pose (- 4) 30)])
       = [pose (- 5) 0, pose (- 4) 30, pose (- 3) 10]"
    by (simp add: full_pool_def pose_def result_ctor_def result_move_def)
  from add_to_result_container_cases[OF h1 h2, of sum_distance_sqr "pose (- 4) 30" 4]
  show ?thesis
    unfolding Let_def closest_full_pool fst_conv
    using h1 h2 far full better srt by simp
qed

section \<open>Properties of the scoring function\<close>

lemma Num_Samples_eq: "Num_Samples = 16385"
  by (simp add: Num_Samples_def size_t_of_double_def Factor_def Cutoff_Sqr_def Cutoff_def)

lemma score_defined:
  assumes "assert_holds nd (r \<le> Cutoff_Sqr)"
  shows "\<exists>v. score nd xs t1 t2 r = Some v"
  unfolding score_def using assms by (simp only: if_True Let_def) blast

lemma fill_e_spec:
  assumes "n \<le> length rs" "n \<le> length p"
    and "\<forall>j. i \<le> j \<and> j < n \<longrightarrow> assert_holds nd (rs ! j \<le> Cutoff_Sqr)"
  shows "\<exists>p'. fill_e nd xs t1 t2 rs n i p = Some p'
           \<and> length p' = length p
           \<and> (\<forall>j. i \<le> j \<and> j < n \<longrightarrow> score nd xs t1 t2 (rs ! j) = Some (sfe_e (p' ! j)))
           \<and> (\<forall>j. j < i \<or> n \<le> j \<longrightarrow> p' ! j = p ! j)
           \<and> (\<forall>j. sfe_dor (p' ! j) = sfe_dor (p ! j))"
  using assms
proof (induction nd xs t1 t2 rs n i p rule: fill_e.induct)
  case (1 nd xs t1 t2 rs n i p)
  show ?case
  proof (cases "i < n")
    case False
    then show ?thesis by (subst fill_e.simps) auto
  next
    case True
    with "1.prems" have inb: "i < length rs" "i < length p" by simp_all
    from True "1.prems"(3) have "assert_holds nd (rs ! i \<le> Cutoff_Sqr)" by simp
    then obtain v where v: "score nd xs t1 t2 (rs ! i) = Some v"
      using score_defined by blast
    let ?p1 = "p[i := (p ! i)\<lparr>sfe_e := v\<rparr>]"
    have "\<exists>p'. fill_e nd xs t1 t2 rs n (Suc i) ?p1 = Some p'
           \<and> length p' = length ?p1
           \<and> (\<forall>j. Suc i \<le> j \<and> j < n \<longrightarrow> score nd xs t1 t2 (rs ! j) = Some (sfe_e (p' ! j)))
           \<and> (\<forall>j. j < Suc i \<or> n \<le> j \<longrightarrow> p' ! j = ?p1 ! j)
           \<and> (\<forall>j. sfe_dor (p' ! j) = sfe_dor (?p1 ! j))"
      using True inb v "1.prems" by (intro "1.IH") simp_all
    then obtain p' where p': "fill_e nd xs t1 t2 rs n (Suc i) ?p1 = Some p'"
      "length p' = length ?p1"
      "\<forall>j. Suc i \<le> j \<and> j < n \<longrightarrow> score nd xs t1 t2 (rs ! j) = Some (sfe_e (p' ! j))"
      "\<forall>j. j < Suc i \<or> n \<le> j \<longrightarrow> p' ! j = ?p1 ! j"
      "\<forall>j. sfe_dor (p' ! j) = sfe_dor (?p1 ! j)"
      by blast
    have eq: "fill_e nd xs t1 t2 rs n i p = Some p'"
      using True inb v p'(1) by (subst fill_e.simps) simp
    have at_i: "p' ! i = ?p1 ! i" using p'(4) by simp
    have a: "\<forall>j. i \<le> j \<and> j < n \<longrightarrow> score nd xs t1 t2 (rs ! j) = Some (sfe_e (p' ! j))"
    proof (intro allI impI)
      fix j assume j: "i \<le> j \<and> j < n"
      show "score nd xs t1 t2 (rs ! j) = Some (sfe_e (p' ! j))"
      proof (cases "j = i")
        case True
        with at_i inb v show ?thesis by simp
      next
        case False
        with j p'(3) show ?thesis by simp
      qed
    qed
    have b: "\<forall>j. j < i \<or> n \<le> j \<longrightarrow> p' ! j = p ! j"
      using p'(4) True by auto
    have c: "\<forall>j. sfe_dor (p' ! j) = sfe_dor (p ! j)"
    proof
      fix j show "sfe_dor (p' ! j) = sfe_dor (p ! j)"
        using p'(5)[rule_format, of j] inb by (cases "j = i") simp_all
    qed
    from eq p'(2) a b c show ?thesis by simp
  qed
qed


lemma fill_dor_spec:
  assumes "n < length rs \<or> n \<le> i" "n < length p \<or> n \<le> i"
  shows "\<exists>p'. fill_dor rs n i p = Some p'
           \<and> length p' = length p
           \<and> (\<forall>j. sfe_e (p' ! j) = sfe_e (p ! j))
           \<and> (\<forall>j. i \<le> j \<and> j < n \<longrightarrow>
                 sfe_dor (p' ! j) =
                   (sfe_e (p ! (j + 1)) - sfe_e (p ! j)) / ((rs ! (j + 1) - rs ! j) * rs ! j))
           \<and> (\<forall>j. j < i \<or> n \<le> j \<longrightarrow> p' ! j = p ! j)"
  using assms
proof (induction rs n i p rule: fill_dor.induct)
  case (1 rs n i p)
  show ?case
  proof (cases "i < n")
    case False
    then show ?thesis by (subst fill_dor.simps) auto
  next
    case True
    with "1.prems" have inb: "Suc i < length rs" "Suc i < length p" by simp_all
    let ?v = "(sfe_e (p ! (i + 1)) - sfe_e (p ! i)) / ((rs ! (i + 1) - rs ! i) * rs ! i)"
    let ?p1 = "p[i := (p ! i)\<lparr>sfe_dor := ?v\<rparr>]"
    have "\<exists>p'. fill_dor rs n (Suc i) ?p1 = Some p'
           \<and> length p' = length ?p1
           \<and> (\<forall>j. sfe_e (p' ! j) = sfe_e (?p1 ! j))
           \<and> (\<forall>j. Suc i \<le> j \<and> j < n \<longrightarrow>
                 sfe_dor (p' ! j) =
                   (sfe_e (?p1 ! (j + 1)) - sfe_e (?p1 ! j)) / ((rs ! (j + 1) - rs ! j) * rs ! j))
           \<and> (\<forall>j. j < Suc i \<or> n \<le> j \<longrightarrow> p' ! j = ?p1 ! j)"
      using True inb "1.prems" by (intro "1.IH") simp_all
    then obtain p' where p': "fill_dor rs n (Suc i) ?p1 = Some p'"
      "length p' = length ?p1"
      "\<forall>j. sfe_e (p' ! j) = sfe_e (?p1 ! j)"
      "\<forall>j. Suc i \<le> j \<and> j < n \<longrightarrow>
                 sfe_dor (p' ! j) =
                   (sfe_e (?p1 ! (j + 1)) - sfe_e (?p1 ! j)) / ((rs ! (j + 1) - rs ! j) * rs ! j)"
      "\<forall>j. j < Suc i \<or> n \<le> j \<longrightarrow> p' ! j = ?p1 ! j"
      by blast
    have eq: "fill_dor rs n i p = Some p'"
      using True inb p'(1) by (subst fill_dor.simps) simp
    have e1: "\<And>j. sfe_e (?p1 ! j) = sfe_e (p ! j)"
    proof -
      fix j show "sfe_e (?p1 ! j) = sfe_e (p ! j)"
        using inb by (cases "j = i") simp_all
    qed
    have a: "\<forall>j. sfe_e (p' ! j) = sfe_e (p ! j)"
      using p'(3) e1 by simp
    have at_i: "p' ! i = ?p1 ! i" using p'(5) by simp
    have b: "\<forall>j. i \<le> j \<and> j < n \<longrightarrow>
                 sfe_dor (p' ! j) =
                   (sfe_e (p ! (j + 1)) - sfe_e (p ! j)) / ((rs ! (j + 1) - rs ! j) * rs ! j)"
    proof (intro allI impI)
      fix j assume j: "i \<le> j \<and> j < n"
      show "sfe_dor (p' ! j) =
                   (sfe_e (p ! (j + 1)) - sfe_e (p ! j)) / ((rs ! (j + 1) - rs ! j) * rs ! j)"
      proof (cases "j = i")
        case True
        with at_i inb show ?thesis by simp
      next
        case False
        with j have "Suc i \<le> j \<and> j < n" by simp
        with p'(4) have "sfe_dor (p' ! j) =
                   (sfe_e (?p1 ! (j + 1)) - sfe_e (?p1 ! j)) / ((rs ! (j + 1) - rs ! j) * rs ! j)"
          by blast
        then show ?thesis unfolding e1 .
      qed
    qed
    have c: "\<forall>j. j < i \<or> n \<le> j \<longrightarrow> p' ! j = p ! j"
      using p'(5) True by auto
    from eq p'(2) a b c show ?thesis by simp
  qed
qed

lemma set_end_dors_spec:
  assumes "p \<noteq> []"
  shows "\<exists>p'. set_end_dors p = Some p'
           \<and> length p' = length p
           \<and> (\<forall>j. sfe_e (p' ! j) = sfe_e (p ! j))
           \<and> sfe_dor (p' ! 0) = 0
           \<and> sfe_dor (p' ! (length p - 1)) = 0
           \<and> (\<forall>j. 0 < j \<and> j < length p - 1 \<longrightarrow> p' ! j = p ! j)"
proof -
  from assms have len: "0 < length p" by simp
  let ?p1 = "p[0 := (p ! 0)\<lparr>sfe_dor := 0\<rparr>]"
  let ?p2 = "?p1[length ?p1 - 1 := (?p1 ! (length ?p1 - 1))\<lparr>sfe_dor := 0\<rparr>]"
  have eq: "set_end_dors p = Some ?p2"
    using assms by (simp add: set_end_dors_def Let_def)
  have e: "\<forall>j. sfe_e (?p2 ! j) = sfe_e (p ! j)"
  proof
    fix j show "sfe_e (?p2 ! j) = sfe_e (p ! j)"
      using len by (cases "j = length p - 1"; cases "j = 0") (simp_all add: nth_list_update)
  qed
  have z: "sfe_dor (?p2 ! 0) = 0"
    using len by (cases "length p - 1 = 0") (simp_all add: nth_list_update)
  have l: "sfe_dor (?p2 ! (length p - 1)) = 0"
    using len by (simp add: nth_list_update)
  have o: "\<forall>j. 0 < j \<and> j < length p - 1 \<longrightarrow> ?p2 ! j = p ! j"
    by (simp add: nth_list_update)
  from eq e z l o show ?thesis by simp
qed


lemma precalculate_entry_spec:
  assumes "length rs = Num_Samples" "length p = Num_Samples"
    and "\<forall>i<Num_Samples. assert_holds nd (rs ! i \<le> Cutoff_Sqr)"
  shows "\<exists>p'. precalculate_entry nd xs t1 t2 rs p = Some p'
           \<and> length p' = Num_Samples
           \<and> (\<forall>i<Num_Samples. score nd xs t1 t2 (rs ! i) = Some (sfe_e (p' ! i)))
           \<and> (\<forall>i. 1 \<le> i \<and> i < Num_Samples - 1 \<longrightarrow>
                 sfe_dor (p' ! i) =
                   (sfe_e (p' ! (i + 1)) - sfe_e (p' ! i)) / ((rs ! (i + 1) - rs ! i) * rs ! i))
           \<and> sfe_dor (p' ! 0) = 0
           \<and> sfe_dor (p' ! (Num_Samples - 1)) = 0"
proof -
  have pos: "0 < Num_Samples" by (simp add: Num_Samples_eq)
  have le1: "Num_Samples \<le> length rs" using assms(1) by simp
  have le2: "Num_Samples \<le> length p" using assms(2) by simp
  have as: "\<forall>j. 0 \<le> j \<and> j < Num_Samples \<longrightarrow> assert_holds nd (rs ! j \<le> Cutoff_Sqr)"
    using assms(3) by blast
  from fill_e_spec[OF le1 le2 as, of xs t1 t2]
  obtain p1 where p1c: "fill_e nd xs t1 t2 rs Num_Samples 0 p = Some p1
           \<and> length p1 = length p
           \<and> (\<forall>j. 0 \<le> j \<and> j < Num_Samples \<longrightarrow> score nd xs t1 t2 (rs ! j) = Some (sfe_e (p1 ! j)))
           \<and> (\<forall>j. j < 0 \<or> Num_Samples \<le> j \<longrightarrow> p1 ! j = p ! j)
           \<and> (\<forall>j. sfe_dor (p1 ! j) = sfe_dor (p ! j))" ..
  from p1c have p1_eq: "fill_e nd xs t1 t2 rs Num_Samples 0 p = Some p1" by (rule conjunct1)
  from p1c have p1_len: "length p1 = Num_Samples" unfolding assms(2) by blast
  from p1c have p1_e: "\<And>j. j < Num_Samples \<Longrightarrow> score nd xs t1 t2 (rs ! j) = Some (sfe_e (p1 ! j))"
    by blast
  have lt1: "Num_Samples - 1 < length rs \<or> Num_Samples - 1 \<le> 1" using assms(1) pos by simp
  have lt2: "Num_Samples - 1 < length p1 \<or> Num_Samples - 1 \<le> 1" using p1_len pos by simp
  from fill_dor_spec[OF lt1 lt2]
  obtain p2 where p2c: "fill_dor rs (Num_Samples - 1) 1 p1 = Some p2
           \<and> length p2 = length p1
           \<and> (\<forall>j. sfe_e (p2 ! j) = sfe_e (p1 ! j))
           \<and> (\<forall>j. 1 \<le> j \<and> j < Num_Samples - 1 \<longrightarrow>
                 sfe_dor (p2 ! j) =
                   (sfe_e (p1 ! (j + 1)) - sfe_e (p1 ! j)) / ((rs ! (j + 1) - rs ! j) * rs ! j))
           \<and> (\<forall>j. j < 1 \<or> Num_Samples - 1 \<le> j \<longrightarrow> p2 ! j = p1 ! j)" ..
  from p2c have p2_eq: "fill_dor rs (Num_Samples - 1) 1 p1 = Some p2" by (rule conjunct1)
  from p2c have p2_len: "length p2 = Num_Samples" unfolding p1_len by blast
  from p2c have p2_e: "\<And>j. sfe_e (p2 ! j) = sfe_e (p1 ! j)" by blast
  from p2c have p2_dor: "\<And>j. 1 \<le> j \<and> j < Num_Samples - 1 \<Longrightarrow>
                 sfe_dor (p2 ! j) =
                   (sfe_e (p1 ! (j + 1)) - sfe_e (p1 ! j)) / ((rs ! (j + 1) - rs ! j) * rs ! j)"
    by blast
  from p2_len pos have ne: "p2 \<noteq> []" by auto
  from set_end_dors_spec[OF ne]
  obtain p3 where p3c: "set_end_dors p2 = Some p3
           \<and> length p3 = length p2
           \<and> (\<forall>j. sfe_e (p3 ! j) = sfe_e (p2 ! j))
           \<and> sfe_dor (p3 ! 0) = 0
           \<and> sfe_dor (p3 ! (length p2 - 1)) = 0
           \<and> (\<forall>j. 0 < j \<and> j < length p2 - 1 \<longrightarrow> p3 ! j = p2 ! j)" ..
  from p3c have p3_eq: "set_end_dors p2 = Some p3" by (rule conjunct1)
  from p3c have p3_len: "length p3 = Num_Samples" unfolding p2_len by blast
  from p3c have p3_e: "\<And>j. sfe_e (p3 ! j) = sfe_e (p2 ! j)" by blast
  from p3c have p3_0: "sfe_dor (p3 ! 0) = 0" by blast
  from p3c have p3_last: "sfe_dor (p3 ! (Num_Samples - 1)) = 0" unfolding p2_len by blast
  from p3c have p3_mid: "\<And>j. 0 < j \<and> j < Num_Samples - 1 \<Longrightarrow> p3 ! j = p2 ! j"
    unfolding p2_len by blast
  have eq: "precalculate_entry nd xs t1 t2 rs p = Some p3"
    unfolding precalculate_entry_def assms(2) assert_holds_def p1_eq option.case p2_eq p3_eq
    by simp
  have e3: "\<And>j. sfe_e (p3 ! j) = sfe_e (p1 ! j)"
    unfolding p3_e p2_e ..
  have a: "\<forall>i<Num_Samples. score nd xs t1 t2 (rs ! i) = Some (sfe_e (p3 ! i))"
    unfolding e3 using p1_e by blast
  have b: "\<forall>i. 1 \<le> i \<and> i < Num_Samples - 1 \<longrightarrow>
                 sfe_dor (p3 ! i) =
                   (sfe_e (p3 ! (i + 1)) - sfe_e (p3 ! i)) / ((rs ! (i + 1) - rs ! i) * rs ! i)"
  proof (intro allI impI)
    fix i assume i: "1 \<le> i \<and> i < Num_Samples - 1"
    then have "0 < i \<and> i < Num_Samples - 1" by simp
    then have same: "p3 ! i = p2 ! i" by (rule p3_mid)
    show "sfe_dor (p3 ! i) =
                   (sfe_e (p3 ! (i + 1)) - sfe_e (p3 ! i)) / ((rs ! (i + 1) - rs ! i) * rs ! i)"
      unfolding e3 unfolding same by (rule p2_dor[OF i])
  qed
  show ?thesis
    apply (rule exI[of _ p3])
    apply (intro conjI)
         apply (rule eq)
        apply (rule p3_len)
       apply (rule a)
      apply (rule b)
     apply (rule p3_0)
    apply (rule p3_last)
    done
qed

text \<open>
  Claim C5. For a type pair \<open>(t1, t2)\<close> whose entry holds \<open>Num_Samples = 16385\<close> elements
  and a grid \<open>rs\<close> of that length (with every sample within the cutoff where assertions
  are compiled in), \<open>precalculate\<close> returns and leaves the other entries alone; in the
  entry of the pair, \<open>e[i] = score t1 t2 (rs[i])\<close> for every \<open>i < Num_Samples\<close>,
  \<open>dor[i] = (e[i+1] - e[i]) / ((rs[i+1] - rs[i]) * rs[i])\<close> for every \<open>i\<close> from 1 to
  \<open>Num_Samples - 2\<close>, and \<open>dor[0] = 0\<close> and \<open>dor[Num_Samples - 1] = 0\<close>.
\<close>

theorem precalculate_fills_table:
  assumes "length rs = Num_Samples"
    and "triangular_matrix_restrictive_index M t1 t2 < length sf"
    and "length (sf ! triangular_matrix_restrictive_index M t1 t2) = Num_Samples"
    and "\<forall>i<Num_Samples. assert_holds nd (rs ! i \<le> Cutoff_Sqr)"
  shows "\<exists>sf'. precalculate nd M xs sf t1 t2 rs = Some sf'
           \<and> length sf' = length sf
           \<and> (\<forall>k. k \<noteq> triangular_matrix_restrictive_index M t1 t2 \<longrightarrow> sf' ! k = sf ! k)
           \<and> length (sf' ! triangular_matrix_restrictive_index M t1 t2) = Num_Samples
           \<and> Num_Samples = 16385
           \<and> (\<forall>i<Num_Samples.
                 score nd xs t1 t2 (rs ! i)
                   = Some (sfe_e (sf' ! triangular_matrix_restrictive_index M t1 t2 ! i)))
           \<and> (\<forall>i. 1 \<le> i \<and> i < Num_Samples - 1 \<longrightarrow>
                 sfe_dor (sf' ! triangular_matrix_restrictive_index M t1 t2 ! i) =
                   (sfe_e (sf' ! triangular_matrix_restrictive_index M t1 t2 ! (i + 1))
                    - sfe_e (sf' ! triangular_matrix_restrictive_index M t1 t2 ! i))
                   / ((rs ! (i + 1) - rs ! i) * rs ! i))
           \<and> sfe_dor (sf' ! triangular_matrix_restrictive_index M t1 t2 ! 0) = 0
           \<and> sfe_dor (sf' ! triangular_matrix_restrictive_index M t1 t2 ! (Num_Samples - 1)) = 0"
proof -
  define k where "k = triangular_matrix_restrictive_index M t1 t2"
  from precalculate_entry_spec[OF assms(1) assms(3) assms(4), of xs t1 t2]
  obtain p' where p': "precalculate_entry nd xs t1 t2 rs (sf ! k) = Some p'"
    "length p' = Num_Samples"
    "\<forall>i<Num_Samples. score nd xs t1 t2 (rs ! i) = Some (sfe_e (p' ! i))"
    "\<forall>i. 1 \<le> i \<and> i < Num_Samples - 1 \<longrightarrow>
                 sfe_dor (p' ! i) =
                   (sfe_e (p' ! (i + 1)) - sfe_e (p' ! i)) / ((rs ! (i + 1) - rs ! i) * rs ! i)"
    "sfe_dor (p' ! 0) = 0"
    "sfe_dor (p' ! (Num_Samples - 1)) = 0"
    unfolding k_def by blast
  have klt: "k < length sf" using assms(2) by (simp add: k_def)
  have eq: "precalculate nd M xs sf t1 t2 rs = Some (sf[k := p'])"
    using klt p'(1) by (simp add: precalculate_def Let_def k_def)
  have at: "sf[k := p'] ! k = p'" using klt by simp
  have others: "\<forall>j. j \<noteq> k \<longrightarrow> sf[k := p'] ! j = sf ! j" by simp
  have len: "length (sf[k := p']) = length sf" by simp
  have "precalculate nd M xs sf t1 t2 rs = Some (sf[k := p'])
           \<and> length (sf[k := p']) = length sf
           \<and> (\<forall>j. j \<noteq> k \<longrightarrow> sf[k := p'] ! j = sf ! j)
           \<and> length (sf[k := p'] ! k) = Num_Samples
           \<and> Num_Samples = 16385
           \<and> (\<forall>i<Num_Samples. score nd xs t1 t2 (rs ! i) = Some (sfe_e (sf[k := p'] ! k ! i)))
           \<and> (\<forall>i. 1 \<le> i \<and> i < Num_Samples - 1 \<longrightarrow>
                 sfe_dor (sf[k := p'] ! k ! i) =
                   (sfe_e (sf[k := p'] ! k ! (i + 1)) - sfe_e (sf[k := p'] ! k ! i))
                   / ((rs ! (i + 1) - rs ! i) * rs ! i))
           \<and> sfe_dor (sf[k := p'] ! k ! 0) = 0
           \<and> sfe_dor (sf[k := p'] ! k ! (Num_Samples - 1)) = 0"
    unfolding at
    apply (intro conjI)
            apply (rule eq)
           apply (rule len)
          apply (rule others)
         apply (rule p'(2))
        apply (rule Num_Samples_eq)
       apply (rule p'(3))
      apply (rule p'(4))
     apply (rule p'(5))
    apply (rule p'(6))
    done
  then show ?thesis unfolding k_def by (rule exI)
qed



lemma sample_grid_nth: "i < Num_Samples \<Longrightarrow> sample_grid ! i = real i / Factor"
  by (simp add: sample_grid_def)

lemma grid_within_cutoff:
  assumes "i < Num_Samples"
  shows "real i / Factor \<le> Cutoff_Sqr"
proof -
  from assms have "i \<le> 16384" by (simp add: Num_Samples_eq)
  then have "real i \<le> 16384" by simp
  then show ?thesis by (simp add: Factor_def Cutoff_Sqr_def Cutoff_def)
qed

lemma grid_last: "real (Num_Samples - 1) / Factor = Cutoff_Sqr"
  by (simp add: Num_Samples_eq Factor_def Cutoff_Sqr_def Cutoff_def)

theorem precalculate_fills_table_witness:
  "length sample_grid = Num_Samples
   \<and> length (empty_table ! triangular_matrix_restrictive_index packed_index 0 0) = Num_Samples
   \<and> (\<exists>sf'. precalculate False packed_index unit_radii empty_table 0 0 sample_grid = Some sf'
         \<and> score False unit_radii 0 0 (1 / 256) = Some (sfe_e (sf' ! 0 ! 1))
         \<and> sfe_dor (sf' ! 0 ! 1) = (sfe_e (sf' ! 0 ! 2) - sfe_e (sf' ! 0 ! 1)) / ((2 / 256 - 1 / 256) * (1 / 256))
         \<and> sfe_dor (sf' ! 0 ! 0) = 0
         \<and> sfe_dor (sf' ! 0 ! 16384) = 0)"
proof -
  have k: "triangular_matrix_restrictive_index packed_index 0 0 = 0"
    by (simp add: packed_index_def)
  have h1: "length sample_grid = Num_Samples" by (simp add: sample_grid_def)
  have h2: "triangular_matrix_restrictive_index packed_index 0 0 < length empty_table"
    by (simp add: k empty_table_def)
  have h3: "length (empty_table ! triangular_matrix_restrictive_index packed_index 0 0) = Num_Samples"
    by (simp add: k empty_table_def)
  have h4: "\<forall>i<Num_Samples. assert_holds False (sample_grid ! i \<le> Cutoff_Sqr)"
    by (simp add: assert_holds_def sample_grid_nth grid_within_cutoff)
  have g1: "sample_grid ! 1 = 1 / 256" and g2: "sample_grid ! 2 = 2 / 256"
    by (simp_all add: sample_grid_nth Num_Samples_eq Factor_def)
  have n1: "(1::nat) < Num_Samples" and n2: "(1::nat) \<le> 1 \<and> 1 < Num_Samples - 1"
    by (simp_all add: Num_Samples_eq)
  from precalculate_fills_table[OF h1 h2 h3 h4, of unit_radii]
  obtain sf' where sf': "precalculate False packed_index unit_radii empty_table 0 0 sample_grid = Some sf'"
    and e: "\<forall>i<Num_Samples. score False unit_radii 0 0 (sample_grid ! i) = Some (sfe_e (sf' ! 0 ! i))"
    and d: "\<forall>i. 1 \<le> i \<and> i < Num_Samples - 1 \<longrightarrow>
                 sfe_dor (sf' ! 0 ! i) =
                   (sfe_e (sf' ! 0 ! (i + 1)) - sfe_e (sf' ! 0 ! i))
                   / ((sample_grid ! (i + 1) - sample_grid ! i) * sample_grid ! i)"
    and z: "sfe_dor (sf' ! 0 ! 0) = 0"
    and l: "sfe_dor (sf' ! 0 ! (Num_Samples - 1)) = 0"
    unfolding k by blast
  from e n1 have e1: "score False unit_radii 0 0 (1 / 256) = Some (sfe_e (sf' ! 0 ! 1))"
    unfolding g1[symmetric] by blast
  from d n2 have "sfe_dor (sf' ! 0 ! 1) =
                   (sfe_e (sf' ! 0 ! (1 + 1)) - sfe_e (sf' ! 0 ! 1))
                   / ((sample_grid ! (1 + 1) - sample_grid ! 1) * sample_grid ! 1)"
    by blast
  then have d1: "sfe_dor (sf' ! 0 ! 1) = (sfe_e (sf' ! 0 ! 2) - sfe_e (sf' ! 0 ! 1)) / ((2 / 256 - 1 / 256) * (1 / 256))"
    unfolding one_add_one g1 g2 .
  from l have l1: "sfe_dor (sf' ! 0 ! 16384) = 0" by (simp add: Num_Samples_eq)
  from sf' e1 d1 z l1 h1 h3 show ?thesis by blast
qed

lemma evaluate_index_in_range:
  assumes "0 \<le> r2" "r2 \<le> Cutoff_Sqr"
  shows "evaluate_index r2 = Some (nat \<lfloor>Factor * r2\<rfloor>)" and "nat \<lfloor>Factor * r2\<rfloor> < Num_Samples"
proof -
  from assms(1) have nn: "0 \<le> Factor * r2" by (simp add: Factor_def)
  then have f0: "0 \<le> \<lfloor>Factor * r2\<rfloor>" by simp
  from assms(2) have "Factor * r2 \<le> 16384" by (simp add: Factor_def Cutoff_Sqr_def Cutoff_def)
  then have "\<lfloor>Factor * r2\<rfloor> \<le> \<lfloor>16384::real\<rfloor>" by (rule floor_mono)
  then have f1: "\<lfloor>Factor * r2\<rfloor> \<le> 16384" by simp
  then have f2: "\<lfloor>Factor * r2\<rfloor> < 2 ^ 64" by simp
  from nn f0 f2 show "evaluate_index r2 = Some (nat \<lfloor>Factor * r2\<rfloor>)"
    by (simp add: evaluate_index_def size_t_of_double_def)
  from f1 have "nat \<lfloor>Factor * r2\<rfloor> \<le> nat 16384" by (rule nat_mono)
  then show "nat \<lfloor>Factor * r2\<rfloor> < Num_Samples" unfolding Num_Samples_eq by simp
qed

lemma evaluate_index_cutoff: "evaluate_index Cutoff_Sqr = Some (Num_Samples - 1)"
  by (simp add: evaluate_index_def size_t_of_double_def Num_Samples_eq Factor_def Cutoff_Sqr_def Cutoff_def)


lemma evaluate_in_range:
  assumes "0 \<le> r2" "r2 \<le> Cutoff_Sqr" "k < length sf" "length (sf ! k) = Num_Samples"
  shows "evaluate nd sf k r2 = Some (sf ! k ! nat \<lfloor>Factor * r2\<rfloor>)"
  using assms evaluate_index_in_range[OF assms(1,2)]
  by (simp add: evaluate_def assert_holds_def)

text \<open>
  Claim C7. For \<open>0 \<le> r2 \<le> Cutoff_Sqr = 64\<close> the index \<open>\<lfloor>Factor * r2\<rfloor> = \<lfloor>256 * r2\<rfloor>\<close>
  that \<open>evaluate\<close> computes is below \<open>Num_Samples = 16385\<close>, so the lookup in an entry of
  \<open>Num_Samples\<close> elements is within bounds and returns that element. At \<open>r2 = Cutoff_Sqr\<close>
  the index is \<open>Num_Samples - 1\<close>, and in a table precalculated on the grid
  \<open>rs[i] = i / Factor\<close> the energy returned there is \<open>score t1 t2 Cutoff_Sqr\<close>.
\<close>

theorem evaluate_lookup_in_bounds:
  assumes "0 \<le> r2" and "r2 \<le> Cutoff_Sqr"
  shows "Cutoff_Sqr = 64 \<and> Factor = 256 \<and> Num_Samples = 16385
     \<and> evaluate_index r2 = Some (nat \<lfloor>Factor * r2\<rfloor>)
     \<and> nat \<lfloor>Factor * r2\<rfloor> < Num_Samples
     \<and> (k < length sf \<and> length (sf ! k) = Num_Samples \<longrightarrow>
          evaluate nd sf k r2 = Some (sf ! k ! nat \<lfloor>Factor * r2\<rfloor>))
     \<and> evaluate_index Cutoff_Sqr = Some (Num_Samples - 1)
     \<and> (length rs = Num_Samples \<and> (\<forall>i<Num_Samples. rs ! i = real i / Factor)
          \<and> triangular_matrix_restrictive_index M t1 t2 < length tbl
          \<and> length (tbl ! triangular_matrix_restrictive_index M t1 t2) = Num_Samples \<longrightarrow>
          (\<exists>tbl' el. precalculate nd M xs tbl t1 t2 rs = Some tbl'
             \<and> evaluate nd tbl' (triangular_matrix_restrictive_index M t1 t2) Cutoff_Sqr = Some el
             \<and> score nd xs t1 t2 Cutoff_Sqr = Some (sfe_e el)))"
proof -
  have cvals: "Cutoff_Sqr = 64" "Factor = 256"
    by (simp_all add: Cutoff_Sqr_def Cutoff_def Factor_def)
  have lookup: "k < length sf \<and> length (sf ! k) = Num_Samples \<longrightarrow>
          evaluate nd sf k r2 = Some (sf ! k ! nat \<lfloor>Factor * r2\<rfloor>)"
    using evaluate_in_range[OF assms] by blast
  have table: "length rs = Num_Samples \<and> (\<forall>i<Num_Samples. rs ! i = real i / Factor)
          \<and> triangular_matrix_restrictive_index M t1 t2 < length tbl
          \<and> length (tbl ! triangular_matrix_restrictive_index M t1 t2) = Num_Samples \<longrightarrow>
          (\<exists>tbl' el. precalculate nd M xs tbl t1 t2 rs = Some tbl'
             \<and> evaluate nd tbl' (triangular_matrix_restrictive_index M t1 t2) Cutoff_Sqr = Some el
             \<and> score nd xs t1 t2 Cutoff_Sqr = Some (sfe_e el))"
  proof (intro impI, elim conjE)
    define j where "j = triangular_matrix_restrictive_index M t1 t2"
    assume len: "length rs = Num_Samples"
      and grid: "\<forall>i<Num_Samples. rs ! i = real i / Factor"
      and jlt: "triangular_matrix_restrictive_index M t1 t2 < length tbl"
      and plen: "length (tbl ! triangular_matrix_restrictive_index M t1 t2) = Num_Samples"
    have within: "\<forall>i<Num_Samples. assert_holds nd (rs ! i \<le> Cutoff_Sqr)"
      using grid grid_within_cutoff by (simp add: assert_holds_def)
    from precalculate_entry_spec[OF len plen within, of xs t1 t2]
    obtain p' where p': "precalculate_entry nd xs t1 t2 rs (tbl ! j) = Some p'"
      "length p' = Num_Samples"
      "\<forall>i<Num_Samples. score nd xs t1 t2 (rs ! i) = Some (sfe_e (p' ! i))"
      unfolding j_def by blast
    have eq: "precalculate nd M xs tbl t1 t2 rs = Some (tbl[j := p'])"
      using jlt p'(1) by (simp add: precalculate_def Let_def j_def)
    have last_lt: "Num_Samples - 1 < Num_Samples" by (simp add: Num_Samples_eq)
    with grid have "rs ! (Num_Samples - 1) = real (Num_Samples - 1) / Factor" by blast
    then have rs_last: "rs ! (Num_Samples - 1) = Cutoff_Sqr" unfolding grid_last .
    from p'(3) last_lt have "score nd xs t1 t2 (rs ! (Num_Samples - 1)) = Some (sfe_e (p' ! (Num_Samples - 1)))"
      by blast
    then have sc: "score nd xs t1 t2 Cutoff_Sqr = Some (sfe_e (p' ! (Num_Samples - 1)))"
      unfolding rs_last .
    have j_lt': "j < length (tbl[j := p'])" using jlt by (simp add: j_def)
    have at: "tbl[j := p'] ! j = p'" using jlt by (simp add: j_def)
    have ev: "evaluate nd (tbl[j := p']) j Cutoff_Sqr = Some (p' ! (Num_Samples - 1))"
      unfolding evaluate_def evaluate_index_cutoff assert_holds_def
      using j_lt' at p'(2) last_lt by simp
    from eq ev sc show "\<exists>tbl' el. precalculate nd M xs tbl t1 t2 rs = Some tbl'
             \<and> evaluate nd tbl' (triangular_matrix_restrictive_index M t1 t2) Cutoff_Sqr = Some el
             \<and> score nd xs t1 t2 Cutoff_Sqr = Some (sfe_e el)"
      unfolding j_def by blast
  qed
  show ?thesis
    apply (intro conjI)
           apply (rule cvals(1))
          apply (rule cvals(2))
         apply (rule Num_Samples_eq)
        apply (rule evaluate_index_in_range(1)[OF assms])
       apply (rule evaluate_index_in_range(2)[OF assms])
      apply (rule lookup)
     apply (rule evaluate_index_cutoff)
    apply (rule table)
    done
qed

theorem evaluate_lookup_in_bounds_witness:
  "(0::real) \<le> 1 / 2 \<and> 1 / 2 \<le> Cutoff_Sqr
   \<and> evaluate_index (1 / 2) = Some 128
   \<and> evaluate_index 64 = Some 16384
   \<and> evaluate False empty_table 0 (1 / 2) = Some \<lparr>sfe_e = 0, sfe_dor = 0\<rparr>
   \<and> (\<exists>tbl' el. precalculate False packed_index unit_radii empty_table 0 0 sample_grid = Some tbl'
         \<and> evaluate False tbl' 0 64 = Some el
         \<and> score False unit_radii 0 0 64 = Some (sfe_e el))"
proof -
  have h1: "(0::real) \<le> 1 / 2" by simp
  have h2: "(1::real) / 2 \<le> Cutoff_Sqr" by (simp add: Cutoff_Sqr_def Cutoff_def)
  have k: "triangular_matrix_restrictive_index packed_index 0 0 = 0"
    by (simp add: packed_index_def)
  have t1: "(0::nat) < length empty_table \<and> length (empty_table ! 0) = Num_Samples"
    by (simp add: empty_table_def)
  have t2: "length sample_grid = Num_Samples \<and> (\<forall>i<Num_Samples. sample_grid ! i = real i / Factor)
          \<and> triangular_matrix_restrictive_index packed_index 0 0 < length empty_table
          \<and> length (empty_table ! triangular_matrix_restrictive_index packed_index 0 0) = Num_Samples"
    unfolding k using t1 by (simp add: sample_grid_nth) (simp add: sample_grid_def)
  have fl: "nat \<lfloor>Factor * (1 / 2)\<rfloor> = 128" by (simp add: Factor_def)
  have el: "empty_table ! 0 ! 128 = \<lparr>sfe_e = 0, sfe_dor = 0\<rparr>"
    by (simp add: empty_table_def Num_Samples_eq)
  note inst = evaluate_lookup_in_bounds[OF h1 h2, of 0 empty_table False sample_grid packed_index 0 0 empty_table unit_radii]
  from inst have c64: "Cutoff_Sqr = 64" by blast
  from inst have a: "evaluate_index (1 / 2) = Some 128" unfolding fl by blast
  from inst t1 have b: "evaluate False empty_table 0 (1 / 2) = Some \<lparr>sfe_e = 0, sfe_dor = 0\<rparr>"
    unfolding fl el by blast
  from inst have c: "evaluate_index 64 = Some 16384" unfolding c64 Num_Samples_eq by simp
  from inst t2 have d: "\<exists>tbl' el. precalculate False packed_index unit_radii empty_table 0 0 sample_grid = Some tbl'
         \<and> evaluate False tbl' 0 64 = Some el
         \<and> score False unit_radii 0 0 64 = Some (sfe_e el)"
    unfolding k c64 by blast
  from h1 h2 a b c d show ?thesis by blast
qed

section \<open>Properties of the Monte Carlo task\<close>

lemma outer_kept_refl: "outer_kept s s"
  by (simp add: outer_kept_def)

lemma outer_kept_trans: "outer_kept s t \<Longrightarrow> outer_kept t u \<Longrightarrow> outer_kept s u"
  by (simp add: outer_kept_def)

lemma trial_state_outer: "outer_kept s (trial_state env p pg1 alpha s)"
  by (simp add: outer_kept_def trial_state_def Let_def)

lemma advance_outer: "outer_kept s (advance env p alpha s)"
  by (simp add: outer_kept_def advance_def)

lemma mutate_outer: "outer_kept s (mutate env s)"
  by (simp add: outer_kept_def mutate_def Let_def)

lemma evaluate_c1_outer: "outer_kept s (evaluate_c1 env s)"
  by (simp add: outer_kept_def evaluate_c1_def Let_def)

lemma line_search_outer:
  "(line_search env p pg1 k alpha s = Accepted a s' \<or> line_search env p pg1 k alpha s = Exhausted s')
   \<Longrightarrow> outer_kept s s'"
proof (induction k arbitrary: alpha s)
  case 0
  then show ?case by (simp add: outer_kept_refl)
next
  case (Suc k)
  let ?t = "trial_state env p pg1 alpha s"
  show ?case
  proof (cases "trial_accepted env p pg1 alpha s")
    case True
    with Suc.prems have "s' = ?t" by (auto split: if_splits)
    then show ?thesis by (simp add: trial_state_outer)
  next
    case False
    with Suc.prems have "line_search env p pg1 k (alpha * 0.1) ?t = Accepted a s'
        \<or> line_search env p pg1 k (alpha * 0.1) ?t = Exhausted s'"
      by (auto split: if_splits)
    then have "outer_kept ?t s'" by (rule Suc.IH)
    with trial_state_outer show ?thesis by (rule outer_kept_trans)
  qed
qed

lemma bfgs_outer_aux:
  fixes env :: "('a, 'b) task_env"
  assumes "bfgs env s = Some y"
  shows "\<forall>s'. y = Some s' \<longrightarrow> outer_kept s s'"
proof (rule bfgs.raw_induct[where P = "\<lambda>env s y. \<forall>s'. y = Some s' \<longrightarrow> outer_kept s s'", OF _ assms])
  fix f :: "('a, 'b) task_env \<Rightarrow> ('a, 'b) task_state \<Rightarrow> ('a, 'b) task_state option option"
  fix env :: "('a, 'b) task_env" and s :: "('a, 'b) task_state"
    and y :: "('a, 'b) task_state option"
  let ?p = "mat_vec env (h_mat s) (g1 s)"
  let ?ls = "line_search env ?p (dot env ?p (g1 s)) num_alphas 1 s"
  assume IH: "\<And>env s y. f env s = Some y \<Longrightarrow> \<forall>s'. y = Some s' \<longrightarrow> outer_kept s s'"
  assume hyp: "(case ?ls of
        Aborted \<Rightarrow> Some None
      | Accepted alpha s' \<Rightarrow> f env (advance env ?p alpha s')
      | Exhausted s' \<Rightarrow> Some (Some s')) = Some y"
  show "\<forall>s'. y = Some s' \<longrightarrow> outer_kept s s'"
  proof (intro allI impI)
    fix s' assume y: "y = Some s'"
    show "outer_kept s s'"
    proof (cases ?ls)
      case Aborted
      with hyp y show ?thesis by simp
    next
      case (Accepted a t)
      with hyp y have "f env (advance env ?p a t) = Some (Some s')" by simp
      with IH have "outer_kept (advance env ?p a t) s'" by blast
      moreover from Accepted have "outer_kept s t" using line_search_outer by blast
      moreover have "outer_kept t (advance env ?p a t)" by (rule advance_outer)
      ultimately show ?thesis using outer_kept_trans by blast
    next
      case (Exhausted t)
      with hyp y have "t = s'" by simp
      with Exhausted show ?thesis using line_search_outer by blast
    qed
  qed
qed

lemma bfgs_outer:
  assumes "bfgs env s = Some (Some s')"
  shows "outer_kept s s'"
  using bfgs_outer_aux[OF assms] by blast

lemma local_optimum_outer:
  assumes "local_optimum env s = Some (Some s2)"
  shows "outer_kept s s2"
proof -
  from assms have "outer_kept (evaluate_c1 env (mutate env s)) s2"
    unfolding local_optimum_def by (rule bfgs_outer)
  with outer_kept_trans[OF mutate_outer evaluate_c1_outer] show ?thesis
    by (rule outer_kept_trans)
qed

lemma mc_iteration_Some:
  assumes "mc_iteration env s = Some (Some s')"
  shows "\<exists>s2. local_optimum env s = Some (Some s2) \<and> s' = accept env s2"
  using assms unfolding mc_iteration_def by (auto split: option.splits)

lemma mc_iteration_e0:
  assumes "mc_iteration env s = Some (Some s')"
  shows "e0 s' \<le> e0 s"
proof -
  from mc_iteration_Some[OF assms] obtain s2 where
    s2: "local_optimum env s = Some (Some s2)" "s' = accept env s2" by blast
  from local_optimum_outer[OF s2(1)] have "e0 s2 = e0 s" by (simp add: outer_kept_def)
  with s2(2) show ?thesis by (simp add: accept_def)
qed

lemma mc_loop_e0:
  assumes "mc_loop env k s = Some (Some s')"
  shows "e0 s' \<le> e0 s"
  using assms
proof (induction k arbitrary: s)
  case 0
  then show ?case by simp
next
  case (Suc k)
  from Suc.prems obtain t where t: "mc_iteration env s = Some (Some t)" "mc_loop env k t = Some (Some s')"
    by (auto split: option.splits)
  from Suc.IH[OF t(2)] mc_iteration_e0[OF t(1)] show ?case by simp
qed

text \<open>
  Claim C6. In a turn of the outer loop that returns, the inner optimisation ends in a
  state \<open>s2\<close>, and \<open>c0\<close>, \<open>e0\<close> and the result slot are then set from \<open>c1\<close> and \<open>e1\<close> of
  \<open>s2\<close> when \<open>e1 < e0\<close> and are what they were before the turn otherwise; so \<open>e0\<close> does
  not increase in a turn, nor over any number of turns, nor over the 50 turns of the task.
\<close>

theorem retained_energy_never_increases:
  "(mc_iteration env s = Some (Some s') \<longrightarrow>
      (\<exists>s2. local_optimum env s = Some (Some s2)
         \<and> (e1 s2 < e0 s \<longrightarrow>
               c0 s' = c1 s2 \<and> e0 s' = e1 s2 \<and> r_out s' = compose_result env (e1 s2) (c1 s2))
         \<and> (\<not> e1 s2 < e0 s \<longrightarrow>
               c0 s' = c0 s \<and> e0 s' = e0 s \<and> r_out s' = r_out s))
      \<and> e0 s' \<le> e0 s)
   \<and> (mc_loop env k t = Some (Some t') \<longrightarrow> e0 t' \<le> e0 t)
   \<and> num_mc_iterations = 50
   \<and> (monte_carlo_task env g = Some (Some u) \<longrightarrow> e0 u \<le> e0 (random_start env g))"
proof -
  have a: "mc_iteration env s = Some (Some s') \<longrightarrow>
      (\<exists>s2. local_optimum env s = Some (Some s2)
         \<and> (e1 s2 < e0 s \<longrightarrow>
               c0 s' = c1 s2 \<and> e0 s' = e1 s2 \<and> r_out s' = compose_result env (e1 s2) (c1 s2))
         \<and> (\<not> e1 s2 < e0 s \<longrightarrow>
               c0 s' = c0 s \<and> e0 s' = e0 s \<and> r_out s' = r_out s))
      \<and> e0 s' \<le> e0 s"
  proof
    assume it: "mc_iteration env s = Some (Some s')"
    from mc_iteration_Some[OF it] obtain s2 where
      s2: "local_optimum env s = Some (Some s2)" "s' = accept env s2" by blast
    from local_optimum_outer[OF s2(1)] have k: "c0 s2 = c0 s" "e0 s2 = e0 s" "r_out s2 = r_out s"
      by (simp_all add: outer_kept_def)
    have better: "e1 s2 < e0 s \<longrightarrow>
               c0 s' = c1 s2 \<and> e0 s' = e1 s2 \<and> r_out s' = compose_result env (e1 s2) (c1 s2)"
      using s2(2) k by (simp add: accept_def)
    have worse: "\<not> e1 s2 < e0 s \<longrightarrow> c0 s' = c0 s \<and> e0 s' = e0 s \<and> r_out s' = r_out s"
      using s2(2) k by (simp add: accept_def)
    from s2(1) better worse mc_iteration_e0[OF it]
    show "(\<exists>s2. local_optimum env s = Some (Some s2)
         \<and> (e1 s2 < e0 s \<longrightarrow>
               c0 s' = c1 s2 \<and> e0 s' = e1 s2 \<and> r_out s' = compose_result env (e1 s2) (c1 s2))
         \<and> (\<not> e1 s2 < e0 s \<longrightarrow>
               c0 s' = c0 s \<and> e0 s' = e0 s \<and> r_out s' = r_out s))
      \<and> e0 s' \<le> e0 s" by blast
  qed
  have b: "mc_loop env k t = Some (Some t') \<longrightarrow> e0 t' \<le> e0 t"
    using mc_loop_e0 by blast
  have c: "monte_carlo_task env g = Some (Some u) \<longrightarrow> e0 u \<le> e0 (random_start env g)"
    unfolding monte_carlo_task_def using mc_loop_e0 by blast
  from a b c show ?thesis by (simp add: num_mc_iterations_def)
qed


lemma trial_state_c1: "c1 (trial_state env p pg1 alpha s) = c1 s \<and> e1 (trial_state env p pg1 alpha s) = e1 s"
  by (simp add: trial_state_def Let_def)

lemma line_search_all_rejected:
  assumes "\<And>c ub io. \<not> fst (lig_evaluate env c ub io)" and "ndebug env"
  shows "\<exists>s'. line_search env p pg1 k alpha s = Exhausted s' \<and> c1 s' = c1 s \<and> e1 s' = e1 s"
proof (induction k arbitrary: alpha s)
  case 0
  show ?case by simp
next
  case (Suc k)
  let ?t = "trial_state env p pg1 alpha s"
  from Suc.IH[of "alpha * 0.1" ?t] obtain s' where
    s': "line_search env p pg1 k (alpha * 0.1) ?t = Exhausted s'" "c1 s' = c1 ?t" "e1 s' = e1 ?t"
    by blast
  have "line_search env p pg1 (Suc k) alpha s = Exhausted s'"
    using assms s'(1) by (simp add: trial_accepted_def assert_holds_def)
  with s'(2,3) trial_state_c1[of env p pg1 alpha s] show ?case by simp
qed

lemma bfgs_all_rejected:
  assumes "\<And>c ub io. \<not> fst (lig_evaluate env c ub io)" and "ndebug env"
  shows "\<exists>s'. bfgs env s = Some (Some s') \<and> c1 s' = c1 s \<and> e1 s' = e1 s"
proof -
  let ?p = "mat_vec env (h_mat s) (g1 s)"
  from line_search_all_rejected[OF assms, of ?p "dot env ?p (g1 s)" num_alphas 1 s]
  obtain s' where s': "line_search env ?p (dot env ?p (g1 s)) num_alphas 1 s = Exhausted s'"
    "c1 s' = c1 s" "e1 s' = e1 s" by blast
  have "bfgs env s = Some (Some s')"
    by (subst bfgs.simps) (simp add: s'(1))
  with s'(2,3) show ?thesis by blast
qed

lemma mc_iteration_all_rejected:
  assumes "\<And>c ub io. \<not> fst (lig_evaluate env c ub io)" and "ndebug env"
  shows "\<exists>s2. local_optimum env s = Some (Some s2) \<and> mc_iteration env s = Some (Some (accept env s2))
           \<and> c1 s2 = c1 (evaluate_c1 env (mutate env s)) \<and> e1 s2 = e1 (evaluate_c1 env (mutate env s))"
proof -
  from bfgs_all_rejected[OF assms, of "evaluate_c1 env (mutate env s)"]
  obtain s2 where s2: "bfgs env (evaluate_c1 env (mutate env s)) = Some (Some s2)"
    "c1 s2 = c1 (evaluate_c1 env (mutate env s))" "e1 s2 = e1 (evaluate_c1 env (mutate env s))"
    by blast
  then show ?thesis by (auto simp: local_optimum_def mc_iteration_def)
qed

lemma mc_loop_all_rejected:
  assumes "\<And>c ub io. \<not> fst (lig_evaluate env c ub io)" and "ndebug env"
  shows "\<exists>s'. mc_loop env k s = Some (Some s')"
proof (induction k arbitrary: s)
  case 0
  show ?case by simp
next
  case (Suc k)
  from mc_iteration_all_rejected[OF assms, of s] obtain s2 where
    "mc_iteration env s = Some (Some (accept env s2))" by blast
  with Suc.IH[of "accept env s2"] show ?case by auto
qed

lemma toy_rejects: "\<not> fst (lig_evaluate (toy_env n reject_all) c ub io)"
  by (simp add: toy_env_def reject_all_def)

lemma toy_release: "ndebug (toy_env n ev)"
  by (simp add: toy_env_def)

lemma toy_draws:
  "draws (toy_env n ev) k g = (map (\<lambda>i. (real ((g + i) mod 4) - 2) / 2) [0 ..< k], g + k)"
proof (induction k arbitrary: g)
  case 0
  show ?case by simp
next
  case (Suc k)
  have u: "uniform_11 (toy_env n ev) g = ((real (g mod 4) - 2) / 2, Suc g)"
    by (simp add: toy_env_def)
  show ?case
    unfolding draws.simps Let_def u fst_conv snd_conv Suc.IH map_upt_Suc
    by simp
qed

lemma toy_randomize:
  "randomize_c0 (toy_env 0 ev) 0
     = (\<lparr>position = (- 1, - 2, - 3), orientation = (- 1 / 2, 0, 1 / 2, - 1), torsions = []\<rparr>, 5)"
proof -
  have u: "uniform_11 (toy_env 0 ev) 0 = (- 1, 1)"
    by (simp add: toy_env_def)
  have q: "fst (draws (toy_env 0 ev) 4 1) = [- 1 / 2, 0, 1 / 2, - 1]"
    unfolding toy_draws by (simp add: upt_rec)
  show ?thesis
    unfolding randomize_c0_def Let_def u fst_conv snd_conv q
    unfolding toy_draws
    by (simp add: toy_env_def vadd_def smul_def)
qed


lemma toy_start:
  "e0 (random_start (toy_env 0 reject_all) 0) = - 1"
  "eng (random_start (toy_env 0 reject_all) 0) = 5"
  "position (c0 (random_start (toy_env 0 reject_all) 0)) = (- 1, - 2, - 3)"
  unfolding random_start_def Let_def toy_randomize
  by (simp_all add: toy_env_def reject_all_def)

lemma toy_first_mutation:
  "e1 (evaluate_c1 (toy_env 0 reject_all) (mutate (toy_env 0 reject_all) (random_start (toy_env 0 reject_all) 0)))
     = - 3 / 2"
proof -
  have d: "fst (draws (toy_env 0 reject_all) 3 5) = [- 1 / 2, 0, 1 / 2]"
    unfolding toy_draws by (simp add: upt_rec)
  have ev: "lig_evaluate (toy_env 0 reject_all) = reject_all" by (simp add: toy_env_def)
  show ?thesis
    unfolding evaluate_c1_def mutate_def Let_def toy_start d ev
    by (simp add: reject_all_def vadd_def toy_start)
qed

theorem retained_energy_never_increases_witness:
  "\<exists>s' u. mc_iteration (toy_env 0 reject_all) (random_start (toy_env 0 reject_all) 0) = Some (Some s')
      \<and> e0 (random_start (toy_env 0 reject_all) 0) = - 1
      \<and> e0 s' = - 3 / 2
      \<and> e0 s' \<le> e0 (random_start (toy_env 0 reject_all) 0)
      \<and> monte_carlo_task (toy_env 0 reject_all) 0 = Some (Some u)
      \<and> e0 u \<le> e0 (random_start (toy_env 0 reject_all) 0)"
proof -
  let ?E = "toy_env 0 reject_all"
  let ?S = "random_start ?E 0"
  from mc_iteration_all_rejected[OF toy_rejects toy_release, of 0 ?S]
  obtain s2 where s2: "local_optimum ?E ?S = Some (Some s2)"
    "mc_iteration ?E ?S = Some (Some (accept ?E s2))"
    "e1 s2 = e1 (evaluate_c1 ?E (mutate ?E ?S))" by blast
  from mc_loop_all_rejected[OF toy_rejects toy_release, of 0 num_mc_iterations ?S]
  obtain u where u: "monte_carlo_task ?E 0 = Some (Some u)"
    unfolding monte_carlo_task_def by blast
  note inst = retained_energy_never_increases[of ?E ?S "accept ?E s2" num_mc_iterations ?S u 0 u]
  from inst s2(2) obtain s3 where s3: "local_optimum ?E ?S = Some (Some s3)"
    "e1 s3 < e0 ?S \<longrightarrow> e0 (accept ?E s2) = e1 s3"
    and le: "e0 (accept ?E s2) \<le> e0 ?S" by blast
  from s3(1) s2(1) have "s3 = s2" by simp
  with s3(2) s2(3) have "e0 (accept ?E s2) = - 3 / 2"
    unfolding toy_first_mutation toy_start by simp
  moreover from inst u have "e0 u \<le> e0 ?S" by blast
  ultimately show ?thesis using s2(2) le u toy_start(1) by blast
qed

text \<open>
  Claim C8. The mutation makes \<open>c1\<close> from \<open>c0\<close> by adding to the position a vector of
  three successive draws of \<open>uniform_11\<close>; the orientation and the torsions of \<open>c1\<close> are
  those of \<open>c0\<close>, \<open>c0\<close> itself is unchanged, and this \<open>c1\<close> is the conformation that is
  evaluated and handed to the inner loop. (That the draws are independent is a property
  of the engine and is not stated.)
\<close>

theorem mutation_changes_position_only:
  "orientation (c1 (mutate env s)) = orientation (c0 s)
   \<and> torsions (c1 (mutate env s)) = torsions (c0 s)
   \<and> position (c1 (mutate env s)) =
       vadd (position (c0 s))
         (fst (uniform_11 env (eng s)),
          fst (uniform_11 env (snd (uniform_11 env (eng s)))),
          fst (uniform_11 env (snd (uniform_11 env (snd (uniform_11 env (eng s)))))))
   \<and> eng (mutate env s) = snd (uniform_11 env (snd (uniform_11 env (snd (uniform_11 env (eng s))))))
   \<and> c0 (mutate env s) = c0 s
   \<and> c1 (evaluate_c1 env (mutate env s)) = c1 (mutate env s)
   \<and> local_optimum env s = bfgs env (evaluate_c1 env (mutate env s))"
proof -
  have d: "draws env 3 g =
      ([fst (uniform_11 env g),
        fst (uniform_11 env (snd (uniform_11 env g))),
        fst (uniform_11 env (snd (uniform_11 env (snd (uniform_11 env g)))))],
       snd (uniform_11 env (snd (uniform_11 env (snd (uniform_11 env g))))))" for g
    by (simp add: eval_nat_numeral Let_def)
  show ?thesis
    unfolding mutate_def evaluate_c1_def local_optimum_def Let_def d
    by simp
qed

theorem mutation_changes_position_only_witness:
  "orientation (c1 (mutate (toy_env 0 reject_all) (random_start (toy_env 0 reject_all) 0)))
     = orientation (c0 (random_start (toy_env 0 reject_all) 0))
   \<and> torsions (c1 (mutate (toy_env 0 reject_all) (random_start (toy_env 0 reject_all) 0)))
     = torsions (c0 (random_start (toy_env 0 reject_all) 0))
   \<and> position (c0 (random_start (toy_env 0 reject_all) 0)) = (- 1, - 2, - 3)
   \<and> position (c1 (mutate (toy_env 0 reject_all) (random_start (toy_env 0 reject_all) 0)))
     = (- 3 / 2, - 2, - 5 / 2)"
proof -
  let ?E = "toy_env 0 reject_all"
  let ?S = "random_start ?E 0"
  have u: "uniform_11 ?E 5 = (- 1 / 2, 6)" "uniform_11 ?E 6 = (0, 7)" "uniform_11 ?E 7 = (1 / 2, 8)"
    by (simp_all add: toy_env_def)
  note inst = mutation_changes_position_only[of ?E ?S]
  from inst have "position (c1 (mutate ?E ?S)) = (- 3 / 2, - 2, - 5 / 2)"
    unfolding toy_start u fst_conv snd_conv by (simp add: vadd_def)
  with inst toy_start(3) show ?thesis by blast
qed

text \<open>
  Claim C9. The random start draws one number \<open>u\<close> and multiplies the whole span by it:
  the initial position is \<open>center + u * span\<close>, with the same \<open>u\<close> on the three axes, so it
  lies on the diagonal of the box through its centre, and within the box when \<open>u\<close> is in
  \<open>[-1, 1]\<close> as the distribution promises.
\<close>

theorem initial_position_on_diagonal:
  "position (c0 (random_start env g)) =
       vadd (center env) (smul (fst (uniform_11 env g)) (span env))
   \<and> fst (position (c0 (random_start env g)))
       = fst (center env) + fst (uniform_11 env g) * fst (span env)
   \<and> fst (snd (position (c0 (random_start env g))))
       = fst (snd (center env)) + fst (uniform_11 env g) * fst (snd (span env))
   \<and> snd (snd (position (c0 (random_start env g))))
       = snd (snd (center env)) + fst (uniform_11 env g) * snd (snd (span env))
   \<and> (\<bar>fst (uniform_11 env g)\<bar> \<le> 1 \<longrightarrow>
         \<bar>fst (position (c0 (random_start env g))) - fst (center env)\<bar> \<le> \<bar>fst (span env)\<bar>
         \<and> \<bar>fst (snd (position (c0 (random_start env g)))) - fst (snd (center env))\<bar>
              \<le> \<bar>fst (snd (span env))\<bar>
         \<and> \<bar>snd (snd (position (c0 (random_start env g)))) - snd (snd (center env))\<bar>
              \<le> \<bar>snd (snd (span env))\<bar>)"
proof -
  have pos: "position (c0 (random_start env g)) =
       vadd (center env) (smul (fst (uniform_11 env g)) (span env))"
    by (simp add: random_start_def randomize_c0_def Let_def)
  have bound: "\<bar>u * x\<bar> \<le> \<bar>x\<bar>" if "\<bar>u\<bar> \<le> 1" for u x :: real
  proof -
    have "\<bar>u\<bar> * \<bar>x\<bar> \<le> 1 * \<bar>x\<bar>" using that by (intro mult_right_mono) simp_all
    then show ?thesis by (simp add: abs_mult)
  qed
  show ?thesis
    unfolding pos by (simp add: vadd_def smul_def bound)
qed

theorem initial_position_on_diagonal_witness:
  "\<bar>fst (uniform_11 (toy_env 0 reject_all) 0)\<bar> \<le> 1
   \<and> position (c0 (random_start (toy_env 0 reject_all) 0)) = (- 1, - 2, - 3)
   \<and> fst (uniform_11 (toy_env 0 reject_all) 0) = - 1
   \<and> center (toy_env 0 reject_all) = (0, 0, 0)
   \<and> span (toy_env 0 reject_all) = (1, 2, 3)
   \<and> \<bar>snd (snd (position (c0 (random_start (toy_env 0 reject_all) 0)))) - snd (snd (center (toy_env 0 reject_all)))\<bar>
        \<le> \<bar>snd (snd (span (toy_env 0 reject_all)))\<bar>"
proof -
  have u: "fst (uniform_11 (toy_env 0 reject_all) 0) = - 1" by (simp add: toy_env_def)
  have cs: "center (toy_env 0 reject_all) = (0, 0, 0)" "span (toy_env 0 reject_all) = (1, 2, 3)"
    by (simp_all add: toy_env_def)
  have h: "\<bar>fst (uniform_11 (toy_env 0 reject_all) 0)\<bar> \<le> 1" unfolding u by simp
  note inst = initial_position_on_diagonal[of "toy_env 0 reject_all" 0]
  from inst have p: "position (c0 (random_start (toy_env 0 reject_all) 0)) = (- 1, - 2, - 3)"
    unfolding u cs by (simp add: vadd_def smul_def)
  from inst h have "\<bar>snd (snd (position (c0 (random_start (toy_env 0 reject_all) 0)))) - snd (snd (center (toy_env 0 reject_all)))\<bar>
        \<le> \<bar>snd (snd (span (toy_env 0 reject_all)))\<bar>" by blast
  with h p u cs show ?thesis by blast
qed

lemma toy_descent:
  "mat_vec (toy_env (Suc 0) ev) (h_mat toy_state) (g1 toy_state) = [0, 0, 0, 0, 0, 0, 3]"
  by (simp add: mat_vec_def toy_env_def toy_state_def num_variables_def packed_index_def
      triangular_matrix_permissive_index_def upt_rec)

lemma toy_slope:
  "dot (toy_env (Suc 0) ev) [0, 0, 0, 0, 0, 0, 3] (g1 toy_state) = - 9"
  by (simp add: dot_def toy_env_def toy_state_def num_variables_def upt_rec)


lemma fold_update_prefix:
  assumes "k \<le> length t"
  shows "foldl (\<lambda>t i. t[i := f i]) t [0 ..< k] = map f [0 ..< k] @ drop k t"
  using assms
proof (induction k)
  case 0
  show ?case by simp
next
  case (Suc k)
  then have IH: "foldl (\<lambda>t i. t[i := f i]) t [0 ..< k] = map f [0 ..< k] @ drop k t" by simp
  from Suc.prems have k: "k < length t" by simp
  have "(map f [0 ..< k] @ drop k t)[k := f k] = map f [0 ..< k] @ (drop k t)[0 := f k]"
    by (simp add: list_update_append)
  also from k have "(drop k t)[0 := f k] = f k # drop (Suc k) t"
    by (simp add: Cons_nth_drop_Suc[symmetric])
  finally show ?case by (simp add: IH)
qed

lemma step_torsions_map:
  assumes "length t2 = num_active_torsions env"
  shows "step_torsions env alpha p t1 t2
           = map (\<lambda>i. t1 ! i + alpha * p ! (6 + i)) [0 ..< num_active_torsions env]"
  unfolding step_torsions_def using fold_update_prefix[of "num_active_torsions env" t2] assms
  by simp

lemma trial_state_fields:
  "c1 (trial_state env p pg1 alpha s) = c1 s"
  "e1 (trial_state env p pg1 alpha s) = e1 s"
  "c2 (trial_state env p pg1 alpha s) = trial_conformation env alpha p (c1 s) (c2 s)"
  "e2 (trial_state env p pg1 alpha s)
     = fst (snd (lig_evaluate env (trial_conformation env alpha p (c1 s) (c2 s))
                   (e1 s + 0.0001 * alpha * pg1) (e2 s, f2 s, g2 s)))"
  "f2 (trial_state env p pg1 alpha s)
     = fst (snd (snd (lig_evaluate env (trial_conformation env alpha p (c1 s) (c2 s))
                   (e1 s + 0.0001 * alpha * pg1) (e2 s, f2 s, g2 s))))"
  "g2 (trial_state env p pg1 alpha s)
     = snd (snd (snd (lig_evaluate env (trial_conformation env alpha p (c1 s) (c2 s))
                   (e1 s + 0.0001 * alpha * pg1) (e2 s, f2 s, g2 s))))"
  by (simp_all add: trial_state_def Let_def)

lemma trial_orientation:
  "orientation (trial_conformation env alpha p a b)
     = qtn4_mul env (qtn4_of_vec3 env (smul alpha (p ! 3, p ! 4, p ! 5))) (orientation a)"
  by (simp add: trial_conformation_def)

lemma line_search_step:
  assumes "assert_holds (ndebug env) (is_normalized env (orientation (c1 s)))"
    and "assert_holds (ndebug env)
           (is_normalized env (qtn4_mul env (qtn4_of_vec3 env (smul alpha (p ! 3, p ! 4, p ! 5)))
              (orientation (c1 s))))"
  shows "line_search env p pg1 (Suc k) alpha s =
           (if trial_accepted env p pg1 alpha s
            then Accepted alpha (trial_state env p pg1 alpha s)
            else line_search env p pg1 k (alpha * 0.1) (trial_state env p pg1 alpha s))"
  using assms by (simp add: trial_orientation)

lemma line_search_exhausted_ends_bfgs:
  assumes "line_search env (mat_vec env (h_mat s) (g1 s))
             (dot env (mat_vec env (h_mat s) (g1 s)) (g1 s)) num_alphas 1 s = Exhausted s'"
  shows "bfgs env s = Some (Some s')"
  by (subst bfgs.simps) (simp add: assms)


lemma line_search_five:
  assumes "assert_holds (ndebug env) (is_normalized env (orientation (c1 s)))"
    and "\<forall>a\<in>set [1, 1 / 10, 1 / 100, 1 / 1000, 1 / 10000].
           assert_holds (ndebug env)
             (is_normalized env
                (qtn4_mul env (qtn4_of_vec3 env (smul a (p ! 3, p ! 4, p ! 5))) (orientation (c1 s))))"
  shows "line_search env p pg1 num_alphas 1 s =
           (let s1 = trial_state env p pg1 1 s;
                s2 = trial_state env p pg1 (1 / 10) s1;
                s3 = trial_state env p pg1 (1 / 100) s2;
                s4 = trial_state env p pg1 (1 / 1000) s3;
                s5 = trial_state env p pg1 (1 / 10000) s4
            in if trial_accepted env p pg1 1 s then Accepted 1 s1
               else if trial_accepted env p pg1 (1 / 10) s1 then Accepted (1 / 10) s2
               else if trial_accepted env p pg1 (1 / 100) s2 then Accepted (1 / 100) s3
               else if trial_accepted env p pg1 (1 / 1000) s3 then Accepted (1 / 1000) s4
               else if trial_accepted env p pg1 (1 / 10000) s4 then Accepted (1 / 10000) s5
               else Exhausted s5)"
proof -
  define q where "q = (\<lambda>a. qtn4_mul env (qtn4_of_vec3 env (smul a (p ! 3, p ! 4, p ! 5))) (orientation (c1 s)))"
  from assms(2) have A: "assert_holds (ndebug env) (is_normalized env (q 1))"
    "assert_holds (ndebug env) (is_normalized env (q (1 / 10)))"
    "assert_holds (ndebug env) (is_normalized env (q (1 / 100)))"
    "assert_holds (ndebug env) (is_normalized env (q (1 / 1000)))"
    "assert_holds (ndebug env) (is_normalized env (q (1 / 10000)))"
    unfolding q_def by simp_all
  define s1 where "s1 = trial_state env p pg1 1 s"
  define s2 where "s2 = trial_state env p pg1 (1 / 10) s1"
  define s3 where "s3 = trial_state env p pg1 (1 / 100) s2"
  define s4 where "s4 = trial_state env p pg1 (1 / 1000) s3"
  define s5 where "s5 = trial_state env p pg1 (1 / 10000) s4"
  have c: "c1 s1 = c1 s" "c1 s2 = c1 s" "c1 s3 = c1 s" "c1 s4 = c1 s"
    by (simp_all add: s1_def s2_def s3_def s4_def trial_state_fields)
  have five: "num_alphas = Suc (Suc (Suc (Suc (Suc 0))))" by (simp add: num_alphas_def)
  have t1: "line_search env p pg1 (Suc (Suc (Suc (Suc (Suc 0))))) 1 s =
      (if trial_accepted env p pg1 1 s then Accepted 1 s1
       else line_search env p pg1 (Suc (Suc (Suc (Suc 0)))) (1 / 10) s1)"
    using line_search_step[of env s 1 p pg1 "Suc (Suc (Suc (Suc 0)))"] assms(1) A(1)
    unfolding q_def s1_def by simp
  have t2: "line_search env p pg1 (Suc (Suc (Suc (Suc 0)))) (1 / 10) s1 =
      (if trial_accepted env p pg1 (1 / 10) s1 then Accepted (1 / 10) s2
       else line_search env p pg1 (Suc (Suc (Suc 0))) (1 / 100) s2)"
    using line_search_step[of env s1 "1 / 10" p pg1 "Suc (Suc (Suc 0))"] assms(1) A(2)
    unfolding q_def s2_def c by simp
  have t3: "line_search env p pg1 (Suc (Suc (Suc 0))) (1 / 100) s2 =
      (if trial_accepted env p pg1 (1 / 100) s2 then Accepted (1 / 100) s3
       else line_search env p pg1 (Suc (Suc 0)) (1 / 1000) s3)"
    using line_search_step[of env s2 "1 / 100" p pg1 "Suc (Suc 0)"] assms(1) A(3)
    unfolding q_def s3_def c by simp
  have t4: "line_search env p pg1 (Suc (Suc 0)) (1 / 1000) s3 =
      (if trial_accepted env p pg1 (1 / 1000) s3 then Accepted (1 / 1000) s4
       else line_search env p pg1 (Suc 0) (1 / 10000) s4)"
    using line_search_step[of env s3 "1 / 1000" p pg1 "Suc 0"] assms(1) A(4)
    unfolding q_def s4_def c by simp
  have t5: "line_search env p pg1 (Suc 0) (1 / 10000) s4 =
      (if trial_accepted env p pg1 (1 / 10000) s4 then Accepted (1 / 10000) s5
       else Exhausted s5)"
    using line_search_step[of env s4 "1 / 10000" p pg1 0] assms(1) A(5)
    unfolding q_def s5_def c by simp
  show ?thesis
    unfolding Let_def five t1 t2 t3 t4 t5 s1_def[symmetric] s2_def[symmetric] s3_def[symmetric]
      s4_def[symmetric] s5_def[symmetric]
    by simp
qed


text \<open>
  Claim C4, amended. While the assertions on the orientations hold, the line search tries
  the \<open>num_alphas = 5\<close> step lengths 1, 1/10, 1/100, 1/1000 and 1/10000 in this order and
  stops at the first accepted one. A trial builds \<open>c2\<close> from \<open>c1\<close>: the position is that of
  \<open>c1\<close> plus \<open>alpha * (p0, p1, p2)\<close>, the orientation is \<open>qtn4 (alpha * (p3, p4, p5))\<close>
  times that of \<open>c1\<close>, and torsion \<open>i\<close> is that of \<open>c1\<close> plus \<open>alpha * p(6+i)\<close>, as it
  comes, without any wrapping. The step length is accepted exactly when the evaluation of
  \<open>c2\<close> under the upper bound \<open>e1 + 0.0001 * alpha * pg1\<close> succeeds and the slope
  \<open>p * g2\<close> is at least \<open>0.9 * pg1\<close>. When no trial is accepted the inner loop ends, in
  the state the search has left.
\<close>

theorem line_search_trials_unwrapped:
  assumes "assert_holds (ndebug env) (is_normalized env (orientation (c1 s)))"
    and "\<forall>a\<in>set [1, 1 / 10, 1 / 100, 1 / 1000, 1 / 10000].
           assert_holds (ndebug env)
             (is_normalized env
                (qtn4_mul env (qtn4_of_vec3 env (smul a (p ! 3, p ! 4, p ! 5))) (orientation (c1 s))))"
  shows "num_alphas = 5
     \<and> line_search env p pg1 num_alphas 1 s =
           (let s1 = trial_state env p pg1 1 s;
                s2 = trial_state env p pg1 (1 / 10) s1;
                s3 = trial_state env p pg1 (1 / 100) s2;
                s4 = trial_state env p pg1 (1 / 1000) s3;
                s5 = trial_state env p pg1 (1 / 10000) s4
            in if trial_accepted env p pg1 1 s then Accepted 1 s1
               else if trial_accepted env p pg1 (1 / 10) s1 then Accepted (1 / 10) s2
               else if trial_accepted env p pg1 (1 / 100) s2 then Accepted (1 / 100) s3
               else if trial_accepted env p pg1 (1 / 1000) s3 then Accepted (1 / 1000) s4
               else if trial_accepted env p pg1 (1 / 10000) s4 then Accepted (1 / 10000) s5
               else Exhausted s5)
     \<and> (\<forall>alpha t.
           position (c2 (trial_state env p pg1 alpha t))
             = vadd (position (c1 t)) (smul alpha (p ! 0, p ! 1, p ! 2))
           \<and> orientation (c2 (trial_state env p pg1 alpha t))
               = qtn4_mul env (qtn4_of_vec3 env (smul alpha (p ! 3, p ! 4, p ! 5))) (orientation (c1 t))
           \<and> (length (torsions (c1 t)) = num_active_torsions env
                \<and> length (torsions (c2 t)) = num_active_torsions env \<longrightarrow>
                torsions (c2 (trial_state env p pg1 alpha t))
                  = map (\<lambda>i. torsions (c1 t) ! i + alpha * p ! (6 + i)) [0 ..< num_active_torsions env])
           \<and> g2 (trial_state env p pg1 alpha t)
               = snd (snd (snd (lig_evaluate env (c2 (trial_state env p pg1 alpha t))
                                  (e1 t + 0.0001 * alpha * pg1) (e2 t, f2 t, g2 t))))
           \<and> trial_accepted env p pg1 alpha t
               = (fst (lig_evaluate env (c2 (trial_state env p pg1 alpha t))
                         (e1 t + 0.0001 * alpha * pg1) (e2 t, f2 t, g2 t))
                  \<and> 0.9 * pg1 \<le> dot env p (g2 (trial_state env p pg1 alpha t))))
     \<and> (\<forall>s'. line_search env (mat_vec env (h_mat s) (g1 s))
                 (dot env (mat_vec env (h_mat s) (g1 s)) (g1 s)) num_alphas 1 s = Exhausted s'
              \<longrightarrow> bfgs env s = Some (Some s'))"
proof -
  have n: "num_alphas = 5" by (simp add: num_alphas_def)
  have trial: "\<forall>alpha t.
           position (c2 (trial_state env p pg1 alpha t))
             = vadd (position (c1 t)) (smul alpha (p ! 0, p ! 1, p ! 2))
           \<and> orientation (c2 (trial_state env p pg1 alpha t))
               = qtn4_mul env (qtn4_of_vec3 env (smul alpha (p ! 3, p ! 4, p ! 5))) (orientation (c1 t))
           \<and> (length (torsions (c1 t)) = num_active_torsions env
                \<and> length (torsions (c2 t)) = num_active_torsions env \<longrightarrow>
                torsions (c2 (trial_state env p pg1 alpha t))
                  = map (\<lambda>i. torsions (c1 t) ! i + alpha * p ! (6 + i)) [0 ..< num_active_torsions env])
           \<and> g2 (trial_state env p pg1 alpha t)
               = snd (snd (snd (lig_evaluate env (c2 (trial_state env p pg1 alpha t))
                                  (e1 t + 0.0001 * alpha * pg1) (e2 t, f2 t, g2 t))))
           \<and> trial_accepted env p pg1 alpha t
               = (fst (lig_evaluate env (c2 (trial_state env p pg1 alpha t))
                         (e1 t + 0.0001 * alpha * pg1) (e2 t, f2 t, g2 t))
                  \<and> 0.9 * pg1 \<le> dot env p (g2 (trial_state env p pg1 alpha t)))"
    unfolding trial_state_fields trial_accepted_def
    by (simp add: trial_conformation_def step_torsions_map)
  have ends: "\<forall>s'. line_search env (mat_vec env (h_mat s) (g1 s))
                 (dot env (mat_vec env (h_mat s) (g1 s)) (g1 s)) num_alphas 1 s = Exhausted s'
              \<longrightarrow> bfgs env s = Some (Some s')"
    using line_search_exhausted_ends_bfgs by blast
  from n line_search_five[OF assms] trial ends show ?thesis by blast
qed

theorem line_search_trials_unwrapped_witness:
  "assert_holds (ndebug (toy_env (Suc 0) reject_all))
     (is_normalized (toy_env (Suc 0) reject_all) (orientation (c1 toy_state)))
   \<and> line_search (toy_env (Suc 0) reject_all) [0, 0, 0, 0, 0, 0, 3] (- 9) num_alphas 1 toy_state
       = Exhausted (toy_state\<lparr>c2 := \<lparr>position = (0, 0, 0), orientation = (1, 0, 0, 0),
                                     torsions = [1 + 1 / 10000 * 3]\<rparr>\<rparr>)
   \<and> bfgs (toy_env (Suc 0) reject_all) toy_state
       = Some (Some (toy_state\<lparr>c2 := \<lparr>position = (0, 0, 0), orientation = (1, 0, 0, 0),
                                       torsions = [1 + 1 / 10000 * 3]\<rparr>\<rparr>))"
proof -
  let ?E = "toy_env (Suc 0) reject_all"
  let ?p = "[0, 0, 0, 0, 0, 0, 3 :: real]"
  let ?U = "\<lambda>a :: real. toy_state\<lparr>c2 := \<lparr>position = (0, 0, 0), orientation = (1, 0, 0, 0),
                                          torsions = [1 + a * 3]\<rparr>\<rparr>"
  have h1: "assert_holds (ndebug ?E) (is_normalized ?E (orientation (c1 toy_state)))"
    by (simp add: assert_holds_def toy_env_def)
  have h2: "\<forall>a\<in>set [1, 1 / 10, 1 / 100, 1 / 1000, 1 / 10000].
           assert_holds (ndebug ?E)
             (is_normalized ?E
                (qtn4_mul ?E (qtn4_of_vec3 ?E (smul a (?p ! 3, ?p ! 4, ?p ! 5))) (orientation (c1 toy_state))))"
    by (simp add: assert_holds_def toy_env_def)
  have rej: "trial_accepted ?E ?p (- 9) alpha t = False" for alpha t
    by (simp add: trial_accepted_def toy_env_def reject_all_def)
  have st0: "trial_state ?E ?p (- 9) 1 toy_state = ?U 1"
    by (simp add: trial_state_def trial_conformation_def step_torsions_def toy_env_def
          reject_all_def toy_state_def Let_def vadd_def smul_def zero3_def)
  have st: "trial_state ?E ?p (- 9) alpha (?U b) = ?U alpha" for alpha b
    by (simp add: trial_state_def trial_conformation_def step_torsions_def toy_env_def
          reject_all_def toy_state_def Let_def vadd_def smul_def zero3_def)
  note inst = line_search_trials_unwrapped[OF h1 h2, of "- 9"]
  from inst have "line_search ?E ?p (- 9) num_alphas 1 toy_state =
           (let s1 = trial_state ?E ?p (- 9) 1 toy_state;
                s2 = trial_state ?E ?p (- 9) (1 / 10) s1;
                s3 = trial_state ?E ?p (- 9) (1 / 100) s2;
                s4 = trial_state ?E ?p (- 9) (1 / 1000) s3;
                s5 = trial_state ?E ?p (- 9) (1 / 10000) s4
            in if trial_accepted ?E ?p (- 9) 1 toy_state then Accepted 1 s1
               else if trial_accepted ?E ?p (- 9) (1 / 10) s1 then Accepted (1 / 10) s2
               else if trial_accepted ?E ?p (- 9) (1 / 100) s2 then Accepted (1 / 100) s3
               else if trial_accepted ?E ?p (- 9) (1 / 1000) s3 then Accepted (1 / 1000) s4
               else if trial_accepted ?E ?p (- 9) (1 / 10000) s4 then Accepted (1 / 10000) s5
               else Exhausted s5)"
    by (rule conjunct1[OF conjunct2])
  then have ls: "line_search ?E ?p (- 9) num_alphas 1 toy_state = Exhausted (?U (1 / 10000))"
    unfolding Let_def rej if_False st0 st .
  from inst have "\<forall>s'. line_search ?E (mat_vec ?E (h_mat toy_state) (g1 toy_state))
                 (dot ?E (mat_vec ?E (h_mat toy_state) (g1 toy_state)) (g1 toy_state)) num_alphas 1 toy_state
                   = Exhausted s'
              \<longrightarrow> bfgs ?E toy_state = Some (Some s')" by blast
  with ls have "bfgs ?E toy_state = Some (Some (?U (1 / 10000)))"
    unfolding toy_descent toy_slope by blast
  with h1 ls show ?thesis by blast
qed

text \<open>
  Claim C4 as stated fails: from a torsion of 1 radian, inside \<open>[-pi, pi)\<close>, the accepted
  trial with \<open>alpha = 1\<close> and \<open>p6 = 3\<close> has the torsion 4, which is not below \<open>pi\<close>.
\<close>

theorem wrapped_torsion_counterexample:
  "line_search (toy_env (Suc 0) accept_flat)
       (mat_vec (toy_env (Suc 0) accept_flat) (h_mat toy_state) (g1 toy_state))
       (dot (toy_env (Suc 0) accept_flat) (mat_vec (toy_env (Suc 0) accept_flat) (h_mat toy_state) (g1 toy_state))
          (g1 toy_state))
       num_alphas 1 toy_state
     = Accepted 1 (toy_state\<lparr>c2 := \<lparr>position = (0, 0, 0), orientation = (1, 0, 0, 0),
                                   torsions = [4]\<rparr>\<rparr>)
   \<and> torsions (c1 toy_state) = [1]
   \<and> - pi \<le> 1 \<and> 1 < pi
   \<and> \<not> (4 < pi)"
proof -
  let ?E = "toy_env (Suc 0) accept_flat"
  let ?p = "[0, 0, 0, 0, 0, 0, 3 :: real]"
  have st: "trial_state ?E ?p (- 9) 1 toy_state
      = toy_state\<lparr>c2 := \<lparr>position = (0, 0, 0), orientation = (1, 0, 0, 0), torsions = [4]\<rparr>\<rparr>"
    by (simp add: trial_state_def trial_conformation_def step_torsions_def toy_env_def
          accept_flat_def toy_state_def Let_def vadd_def smul_def zero3_def)
  have acc: "trial_accepted ?E ?p (- 9) 1 toy_state"
    unfolding trial_accepted_def st
    by (simp add: toy_env_def accept_flat_def toy_state_def dot_def num_variables_def upt_rec)
  have ls: "line_search ?E ?p (- 9) num_alphas 1 toy_state
     = Accepted 1 (toy_state\<lparr>c2 := \<lparr>position = (0, 0, 0), orientation = (1, 0, 0, 0),
                                   torsions = [4]\<rparr>\<rparr>)"
    unfolding num_alphas_def
    by (simp add: eval_nat_numeral acc st) (simp add: assert_holds_def toy_env_def)
  have t: "torsions (c1 toy_state) = [1]" by (simp add: toy_state_def)
  have p1: "- pi \<le> 1" "1 < pi" using pi_ge_two by simp_all
  have p4: "\<not> (4 < pi)" using pi_less_4 by simp
  from ls t p1 p4 show ?thesis unfolding toy_descent toy_slope by blast
qed

lemma with_flag_fields:
  "num_active_torsions (with_flag b env) = num_active_torsions env"
  "num_heavy_atoms (with_flag b env) = num_heavy_atoms env"
  "compose_result (with_flag b env) = compose_result env"
  "center (with_flag b env) = center env"
  "span (with_flag b env) = span env"
  "uniform_11 (with_flag b env) = uniform_11 env"
  "qtn4id (with_flag b env) = qtn4id env"
  "qtn4_of_4 (with_flag b env) = qtn4_of_4 env"
  "normalize (with_flag b env) = normalize env"
  "matrix (with_flag b env) = matrix env"
  "indeterminate (with_flag b env) = indeterminate env"
  "snd (lig_evaluate (with_flag b env) c ub io) = snd (lig_evaluate env c ub io)"
  "fst (lig_evaluate (with_flag b env) c ub io) = b"
  by (simp_all add: with_flag_def)

lemma with_flag_draws: "draws (with_flag b env) n g = draws env n g"
  by (induction n arbitrary: g) (simp_all add: with_flag_fields Let_def)

lemma with_flag_randomize: "randomize_c0 (with_flag b env) g = randomize_c0 env g"
  by (simp add: randomize_c0_def with_flag_draws with_flag_fields)

lemma with_flag_consts:
  "e_upper_bound (with_flag b env) = e_upper_bound env"
  "conformation_ctor (with_flag b env) = conformation_ctor env"
  "identity_hessian (with_flag b env) = identity_hessian env"
  by (simp_all add: e_upper_bound_def conformation_ctor_def identity_hessian_def num_variables_def
      with_flag_fields)

lemma with_flag_random_start: "random_start (with_flag b env) g = random_start env g"
  unfolding random_start_def Let_def with_flag_randomize with_flag_consts with_flag_fields
  by (simp add: with_flag_fields)

lemma with_flag_mutate: "mutate (with_flag b env) s = mutate env s"
  by (simp add: mutate_def with_flag_draws)

lemma with_flag_evaluate_c1: "evaluate_c1 (with_flag b env) s = evaluate_c1 env s"
  unfolding evaluate_c1_def Let_def with_flag_consts
  by (simp add: with_flag_fields)

text \<open>
  Claim C10. The flag that \<open>lig.evaluate\<close> returns for \<open>c0\<close> and for the mutated \<open>c1\<close> is
  not used: the start state and the evaluated mutation are the same whatever flag the
  evaluation returns. In particular, when the evaluation of \<open>c0\<close> is rejected the result
  slot is still set to \<open>compose_result e0 c0\<close> with the energy it wrote, and when the
  evaluation of \<open>c1\<close> is rejected the inner loop still starts, from the \<open>e1\<close>, \<open>f1\<close> and
  \<open>g1\<close> the rejected evaluation left, with the descent direction computed from that \<open>g1\<close>.
\<close>

theorem evaluation_flag_ignored:
  "random_start (with_flag b env) g = random_start env g
   \<and> evaluate_c1 (with_flag b env) (mutate (with_flag b env) s) = evaluate_c1 env (mutate env s)
   \<and> (\<not> fst (lig_evaluate env (fst (randomize_c0 env g)) (e_upper_bound env)
               (indeterminate env 0, indeterminate env 1, replicate (6 + num_active_torsions env) 0)) \<longrightarrow>
        c0 (random_start env g) = fst (randomize_c0 env g)
        \<and> e0 (random_start env g)
            = fst (snd (lig_evaluate env (fst (randomize_c0 env g)) (e_upper_bound env)
                (indeterminate env 0, indeterminate env 1, replicate (6 + num_active_torsions env) 0)))
        \<and> r_out (random_start env g)
            = compose_result env (e0 (random_start env g)) (c0 (random_start env g)))
   \<and> (\<not> fst (lig_evaluate env (c1 (mutate env s)) (e_upper_bound env)
               (e1 (mutate env s), f1 (mutate env s), g1 (mutate env s))) \<longrightarrow>
        (let ev = lig_evaluate env (c1 (mutate env s)) (e_upper_bound env)
                    (e1 (mutate env s), f1 (mutate env s), g1 (mutate env s));
             s2 = (mutate env s)\<lparr>e1 := fst (snd ev), f1 := fst (snd (snd ev)),
                                  g1 := snd (snd (snd ev)), h_mat := identity_hessian env\<rparr>;
             p = mat_vec env (identity_hessian env) (snd (snd (snd ev)))
         in local_optimum env s = bfgs env s2
            \<and> bfgs env s2 =
                (case line_search env p (dot env p (snd (snd (snd ev)))) num_alphas 1 s2 of
                   Aborted \<Rightarrow> Some None
                 | Accepted alpha s' \<Rightarrow> bfgs env (advance env p alpha s')
                 | Exhausted s' \<Rightarrow> Some (Some s'))))"
proof -
  have a: "random_start (with_flag b env) g = random_start env g"
    by (rule with_flag_random_start)
  have bb: "evaluate_c1 (with_flag b env) (mutate (with_flag b env) s) = evaluate_c1 env (mutate env s)"
    by (simp add: with_flag_mutate with_flag_evaluate_c1)
  have c: "c0 (random_start env g) = fst (randomize_c0 env g)
        \<and> e0 (random_start env g)
            = fst (snd (lig_evaluate env (fst (randomize_c0 env g)) (e_upper_bound env)
                (indeterminate env 0, indeterminate env 1, replicate (6 + num_active_torsions env) 0)))
        \<and> r_out (random_start env g)
            = compose_result env (e0 (random_start env g)) (c0 (random_start env g))"
    by (simp add: random_start_def Let_def)
  define ev where "ev = lig_evaluate env (c1 (mutate env s)) (e_upper_bound env)
                    (e1 (mutate env s), f1 (mutate env s), g1 (mutate env s))"
  define s2 where "s2 = (mutate env s)\<lparr>e1 := fst (snd ev), f1 := fst (snd (snd ev)),
                                  g1 := snd (snd (snd ev)), h_mat := identity_hessian env\<rparr>"
  define p where "p = mat_vec env (identity_hessian env) (snd (snd (snd ev)))"
  have s2_eq: "evaluate_c1 env (mutate env s) = s2"
    by (simp add: evaluate_c1_def Let_def s2_def ev_def)
  have d1: "local_optimum env s = bfgs env s2"
    by (simp add: local_optimum_def s2_eq)
  have hs: "h_mat s2 = identity_hessian env" "g1 s2 = snd (snd (snd ev))"
    by (simp_all add: s2_def)
  have d2: "bfgs env s2 =
                (case line_search env p (dot env p (snd (snd (snd ev)))) num_alphas 1 s2 of
                   Aborted \<Rightarrow> Some None
                 | Accepted alpha s' \<Rightarrow> bfgs env (advance env p alpha s')
                 | Exhausted s' \<Rightarrow> Some (Some s'))"
    unfolding p_def hs[symmetric] by (rule bfgs.simps)
  from d1 d2 have d: "let ev = lig_evaluate env (c1 (mutate env s)) (e_upper_bound env)
                    (e1 (mutate env s), f1 (mutate env s), g1 (mutate env s));
             s2 = (mutate env s)\<lparr>e1 := fst (snd ev), f1 := fst (snd (snd ev)),
                                  g1 := snd (snd (snd ev)), h_mat := identity_hessian env\<rparr>;
             p = mat_vec env (identity_hessian env) (snd (snd (snd ev)))
         in local_optimum env s = bfgs env s2
            \<and> bfgs env s2 =
                (case line_search env p (dot env p (snd (snd (snd ev)))) num_alphas 1 s2 of
                   Aborted \<Rightarrow> Some None
                 | Accepted alpha s' \<Rightarrow> bfgs env (advance env p alpha s')
                 | Exhausted s' \<Rightarrow> Some (Some s'))"
    unfolding Let_def ev_def[symmetric] s2_def[symmetric] p_def[symmetric] by (rule conjI)
  from a bb c d show ?thesis by blast
qed

theorem evaluation_flag_ignored_witness:
  "\<not> fst (lig_evaluate (toy_env 0 reject_all) (fst (randomize_c0 (toy_env 0 reject_all) 0))
            (e_upper_bound (toy_env 0 reject_all))
            (indeterminate (toy_env 0 reject_all) 0, indeterminate (toy_env 0 reject_all) 1,
             replicate (6 + num_active_torsions (toy_env 0 reject_all)) 0))
   \<and> e0 (random_start (toy_env 0 reject_all) 0) = - 1
   \<and> r_out (random_start (toy_env 0 reject_all) 0) = result_ctor (- 1) (- 1) [(- 1, - 2, - 3)] []
   \<and> \<not> fst (lig_evaluate (toy_env 0 reject_all)
              (c1 (mutate (toy_env 0 reject_all) (random_start (toy_env 0 reject_all) 0)))
              (e_upper_bound (toy_env 0 reject_all))
              (e1 (mutate (toy_env 0 reject_all) (random_start (toy_env 0 reject_all) 0)),
               f1 (mutate (toy_env 0 reject_all) (random_start (toy_env 0 reject_all) 0)),
               g1 (mutate (toy_env 0 reject_all) (random_start (toy_env 0 reject_all) 0))))
   \<and> local_optimum (toy_env 0 reject_all) (random_start (toy_env 0 reject_all) 0)
       = bfgs (toy_env 0 reject_all)
           (evaluate_c1 (toy_env 0 reject_all)
              (mutate (toy_env 0 reject_all) (random_start (toy_env 0 reject_all) 0)))
   \<and> random_start (with_flag True (toy_env 0 reject_all)) 0 = random_start (toy_env 0 reject_all) 0"
proof -
  let ?E = "toy_env 0 reject_all"
  let ?S = "random_start ?E 0"
  have r1: "\<not> fst (lig_evaluate ?E c ub io)" for c ub io by (rule toy_rejects)
  note inst = evaluation_flag_ignored[of True ?E 0 ?S]
  from inst r1 have c: "c0 ?S = fst (randomize_c0 ?E 0)"
    and r: "r_out ?S = compose_result ?E (e0 ?S) (c0 ?S)" by blast+
  have e: "e0 ?S = - 1" by (rule toy_start(1))
  have "r_out ?S = result_ctor (- 1) (- 1) [(- 1, - 2, - 3)] []"
    unfolding r e c toy_randomize by (simp add: toy_env_def)
  moreover from inst r1 have "local_optimum ?E ?S = bfgs ?E (evaluate_c1 ?E (mutate ?E ?S))"
    by (simp add: local_optimum_def)
  moreover from inst have "random_start (with_flag True ?E) 0 = ?S" by blast
  ultimately show ?thesis using r1 e by blast
qed

section \<open>Properties of the receptor\<close>

lemma parse_line_N:
  "parse_line nine_types \<lparr>atoms = [], residue = ''XXXX'', residue_start = None\<rparr> line_N
     = Inr \<lparr>atoms = [\<lparr>serial = 1, name = '' N  '', coordinate = (0, 0, 0), ad = 4,
                        is_donor = False, is_hydrophobic = False\<rparr>],
            residue = ''   1'', residue_start = Some 0\<rparr>"
  by (simp add: parse_line_def line_N_def substr_def char_at_def isspace_def track_residue_def
      nine_types_def ad_type_strings_def store_atom_def atom_ctor_def is_hetero_def Let_def)


lemma parse_line_HD:
  "parse_line nine_types
     \<lparr>atoms = [\<lparr>serial = 1, name = '' N  '', coordinate = (0, 0, 0), ad = 4,
                  is_donor = False, is_hydrophobic = False\<rparr>],
      residue = ''   1'', residue_start = Some 0\<rparr> line_HD
     = Inr \<lparr>atoms = [\<lparr>serial = 1, name = '' N  '', coordinate = (0, 0, 0), ad = 4,
                        is_donor = True, is_hydrophobic = False\<rparr>,
                     \<lparr>serial = 2, name = '' H  '', coordinate = (1, 0, 0), ad = 1,
                        is_donor = False, is_hydrophobic = False\<rparr>],
            residue = ''   1'', residue_start = Some 0\<rparr>"
  by (simp add: parse_line_def line_HD_def substr_def char_at_def isspace_def track_residue_def
      nine_types_def ad_type_strings_def store_atom_def atom_ctor_def is_hetero_def Let_def
      close_by_def sqr_def donorize_def)

lemma parse_line_Xx:
  "parse_line nine_types
     \<lparr>atoms = as, residue = ''   1'', residue_start = Some 0\<rparr> line_Xx
     = Inr \<lparr>atoms = as, residue = ''   1'', residue_start = Some 0\<rparr>"
  by (simp add: parse_line_def line_Xx_def substr_def char_at_def isspace_def track_residue_def
      nine_types_def ad_type_strings_def Let_def)

lemma parse_line_C:
  "parse_line nine_types
     \<lparr>atoms = [\<lparr>serial = 1, name = '' N  '', coordinate = (0, 0, 0), ad = 4,
                  is_donor = False, is_hydrophobic = False\<rparr>],
      residue = ''   1'', residue_start = Some 0\<rparr> line_C
     = Inr \<lparr>atoms = [\<lparr>serial = 1, name = '' N  '', coordinate = (0, 0, 0), ad = 4,
                        is_donor = False, is_hydrophobic = False\<rparr>,
                     \<lparr>serial = 3, name = '' CA '', coordinate = (3 / 2, 0, 0), ad = 2,
                        is_donor = False, is_hydrophobic = True\<rparr>],
            residue = ''   1'', residue_start = Some 0\<rparr>"
  by (simp add: parse_line_def line_C_def substr_def char_at_def isspace_def track_residue_def
      nine_types_def ad_type_strings_def store_atom_def atom_ctor_def is_hetero_def Let_def
      close_by_def sqr_def)

lemma nonpolar_hydrogen_is_skipped:
  assumes "substr line 0 6 = ''ATOM  '' \<or> substr line 0 6 = ''HETATM''"
    and "char_at line 78 = Some c"
    and "parse_ad_type_string T (substr line 77 (if isspace c then 1 else 2)) = AD_TYPE_H T"
  shows "\<exists>st'. parse_line T st line = Inr st' \<and> atoms st' = atoms st"
  using assms by (auto simp: parse_line_def Let_def track_residue_def)

lemma unknown_type_is_skipped:
  assumes "substr line 0 6 = ''ATOM  '' \<or> substr line 0 6 = ''HETATM''"
    and "char_at line 78 = Some c"
    and "parse_ad_type_string T (substr line 77 (if isspace c then 1 else 2)) = AD_TYPE_SIZE T"
  shows "parse_line T st line = Inr (track_residue st line)"
  using assms by (auto simp: parse_line_def Let_def)

lemma polar_hydrogen_is_appended:
  assumes "ad a = AD_TYPE_HD T" and "residue_start st = Some start"
  shows "\<exists>st'. store_atom T st a = Inr st' \<and> length (atoms st') = Suc (length (atoms st))
           \<and> last (atoms st') = a"
proof -
  have len: "length (donorize_loop T a start as i) = length as" for as i
    by (induction i) simp_all
  from assms show ?thesis by (simp add: store_atom_def len)
qed

text \<open>
  Claim C1 on the code: a polar hydrogen that follows the nitrogen it is bonded to makes
  the nitrogen a donor and is then itself appended to the atoms of the receptor, with its
  type \<open>AD_TYPE_HD\<close>.
\<close>

theorem polar_hydrogen_is_stored:
  "\<exists>r. receptor_ctor nine_types [line_N, line_HD] b = Inr r
       \<and> rec_atoms r =
           [\<lparr>serial = 1, name = '' N  '', coordinate = (0, 0, 0), ad = 4,
              is_donor = True, is_hydrophobic = False\<rparr>,
            \<lparr>serial = 2, name = '' H  '', coordinate = (1, 0, 0), ad = 1,
              is_donor = False, is_hydrophobic = False\<rparr>]
       \<and> ad (rec_atoms r ! 1) = AD_TYPE_HD nine_types"
proof -
  let ?as = "[\<lparr>serial = 1, name = '' N  '', coordinate = (0, 0, 0), ad = 4,
              is_donor = True, is_hydrophobic = False\<rparr>,
            \<lparr>serial = 2, name = '' H  '', coordinate = (1, 0, 0), ad = 1,
              is_donor = False, is_hydrophobic = False\<rparr>]"
  have p: "parse_lines nine_types \<lparr>atoms = [], residue = ''XXXX'', residue_start = None\<rparr>
             [line_N, line_HD]
           = Inr \<lparr>atoms = ?as, residue = ''   1'', residue_start = Some 0\<rparr>"
    unfolding parse_lines.simps parse_line_N sum.case parse_line_HD ..
  have r: "receptor_ctor nine_types [line_N, line_HD] b
           = Inr \<lparr>rec_atoms = ?as, partitions = allocate b ?as\<rparr>"
    unfolding receptor_ctor_def p by simp
  have hd: "ad (?as ! 1) = AD_TYPE_HD nine_types" by (simp add: nine_types_def)
  show ?thesis unfolding r using hd by simp
qed

text \<open>
  Claim C2 on the code: an atom line whose type string is not in the table raises
  nothing; the line is skipped, the next line is parsed and the constructor returns a
  receptor.
\<close>

theorem unknown_type_is_not_an_error:
  "\<exists>r. receptor_ctor nine_types [line_N, line_Xx, line_C] b = Inr r
       \<and> map serial (rec_atoms r) = [1, 3]
       \<and> parse_ad_type_string nine_types ''Xx'' = AD_TYPE_SIZE nine_types"
proof -
  let ?as = "[\<lparr>serial = 1, name = '' N  '', coordinate = (0, 0, 0), ad = 4,
                        is_donor = False, is_hydrophobic = False\<rparr>,
                     \<lparr>serial = 3, name = '' CA '', coordinate = (3 / 2, 0, 0), ad = 2,
                        is_donor = False, is_hydrophobic = True\<rparr>]"
  have p: "parse_lines nine_types \<lparr>atoms = [], residue = ''XXXX'', residue_start = None\<rparr>
             [line_N, line_Xx, line_C]
           = Inr \<lparr>atoms = ?as, residue = ''   1'', residue_start = Some 0\<rparr>"
    unfolding parse_lines.simps parse_line_N sum.case parse_line_Xx parse_line_C ..
  have r: "receptor_ctor nine_types [line_N, line_Xx, line_C] b
           = Inr \<lparr>rec_atoms = ?as, partitions = allocate b ?as\<rparr>"
    unfolding receptor_ctor_def p by simp
  have u: "parse_ad_type_string nine_types ''Xx'' = AD_TYPE_SIZE nine_types"
    by (simp add: nine_types_def ad_type_strings_def)
  show ?thesis unfolding r using u by simp
qed

end
